theory Spec2Isabelle
  imports Complex_Main
begin

section \<open>Data model\<close>

text \<open>
  The shared match state is the TypeScript interface \<open>GameState\<close> of \<open>Home.tsx\<close>,
  \<open>Game.tsx\<close>, \<open>GameScene.ts\<close> and \<open>BlockchainService.ts\<close>. A \<open>Record<string, ...>\<close> keeps
  its keys in insertion order and \<open>Object.entries(...).find\<close> returns the first match, so
  \<open>players\<close> is an association list. Optional fields (\<open>field?: T\<close>) are options, \<open>None\<close> being
  \<open>undefined\<close>. \<open>ropePosition\<close> is a JavaScript number; every value the program computes from
  the constants below is an integer or a half, which a double represents exactly (the
  product \<open>350 * 0.85\<close> rounds to the double 297.5), so the arithmetic is the exact one of
  \<open>rat\<close>. Times (\<open>Date.now()\<close>) are integers of milliseconds.
\<close>

record Player =
  role :: string
  isReady :: bool

type_synonym Players = "(string \<times> Player) list"

record GameState =
  players :: Players
  roomId :: "string option"
  isStarted :: bool
  ropePosition :: rat
  player1Pulling :: bool
  player2Pulling :: bool
  winner :: "string option"
  gameFinishedOnBlockchain :: "bool option"
  showStartButton :: "bool option"
  countdown :: "int option"
  isCountingDown :: "bool option"

text \<open>JavaScript truthiness of the values that the code tests.\<close>

definition truthyStr :: "string option \<Rightarrow> bool" where
  "truthyStr v = (case v of None \<Rightarrow> False | Some s \<Rightarrow> s \<noteq> [])"

definition truthyBool :: "bool option \<Rightarrow> bool" where
  "truthyBool v = (case v of None \<Rightarrow> False | Some b \<Rightarrow> b)"

text \<open>\<open>String.prototype.toLowerCase\<close> on the ASCII strings that wallet addresses are.\<close>

definition lowerChar :: "char \<Rightarrow> char" where
  "lowerChar c =
     (case map_of (zip ''ABCDEFGHIJKLMNOPQRSTUVWXYZ'' ''abcdefghijklmnopqrstuvwxyz'') c of
        None \<Rightarrow> c
      | Some l \<Rightarrow> l)"

definition toLowerCase :: "string \<Rightarrow> string" where
  "toLowerCase s = map lowerChar s"

text \<open>\<open>Object.entries(players).find(([addr]) => addr.toLowerCase() === a.toLowerCase())\<close>\<close>

definition findAddress :: "string \<Rightarrow> Players \<Rightarrow> (string \<times> Player) option" where
  "findAddress a ps = find (\<lambda>(addr, p). toLowerCase addr = toLowerCase a) ps"

text \<open>\<open>Object.entries(players).find(([, data]) => data.role === r)\<close>\<close>

definition findRole :: "string \<Rightarrow> Players \<Rightarrow> (string \<times> Player) option" where
  "findRole r ps = find (\<lambda>(addr, p). role p = r) ps"

text \<open>\<open>{...players, [a]: v}\<close>: an existing key keeps its place, a new key is appended.\<close>

fun setKey :: "string \<Rightarrow> Player \<Rightarrow> Players \<Rightarrow> Players" where
  "setKey a v [] = [(a, v)]"
| "setKey a v ((k, w) # ps) = (if k = a then (k, v) # ps else (k, w) # setKey a v ps)"

section \<open>The rope resolution loop (\<open>Game.tsx\<close>, the \<open>setInterval\<close> callback)\<close>

definition centerX :: rat where
  "centerX = 600"

definition maxDistance :: rat where
  "maxDistance = 350"

definition pullForce :: rat where
  "pullForce = 10"

definition winDistance :: rat where
  "winDistance = maxDistance * (85 / 100)"

text \<open>
  The two movement statements of the callback, in the source's order: the pair is
  (\<open>newRopePosition\<close>, \<open>shouldUpdate\<close>) after both \<open>if\<close>s.
\<close>

definition pullStep :: "GameState \<Rightarrow> rat \<times> bool" where
  "pullStep cur =
     (let p0 = ropePosition cur;
          (p1, u1) = (if player1Pulling cur \<and> \<not> player2Pulling cur
                      then (max (centerX - maxDistance) (p0 - pullForce), True)
                      else (p0, False))
      in if \<not> player1Pulling cur \<and> player2Pulling cur
         then (min (centerX + maxDistance) (p1 + pullForce), True)
         else (p1, u1))"

definition winCheck :: "rat \<Rightarrow> string option" where
  "winCheck p =
     (if p \<le> centerX - winDistance then Some ''player1''
      else if p \<ge> centerX + winDistance then Some ''player2''
      else None)"

text \<open>
  The object \<open>newState\<close> that the functional updater returns: \<open>p\<close> and \<open>w\<close> are the
  callback's \<open>newRopePosition\<close> and \<open>winner\<close>, \<open>prev\<close> is the updater's \<open>prevState\<close>.
\<close>

definition loopState :: "rat \<Rightarrow> string option \<Rightarrow> GameState \<Rightarrow> GameState" where
  "loopState p w prev =
     prev\<lparr> ropePosition := p,
           winner := (if truthyStr w then w else winner prev),
           isStarted := (if truthyStr w then False else isStarted prev),
           player1Pulling := False,
           player2Pulling := False,
           countdown := (if truthyStr w then None else countdown prev),
           isCountingDown := (if truthyStr w then Some False else isCountingDown prev),
           gameFinishedOnBlockchain := gameFinishedOnBlockchain prev \<rparr>"

text \<open>
  The settlement task that the updater starts: the asynchronous function captures the
  callback's \<open>winner\<close> and, of \<open>currentState\<close>, \<open>roomId\<close> and \<open>players\<close>, and suspends at
  its first \<open>await\<close>.
\<close>

record SettleTask =
  taskWinner :: string
  taskRoom :: string
  taskPlayers :: Players

text \<open>
  The guard of the updater's \<open>if\<close>: \<open>winner && currentState.roomId &&
  !prevState.gameFinishedOnBlockchain && !finishGameCalledRef.current\<close>. The result is the
  list of tasks started, empty or a singleton.
\<close>

definition settleGuard :: "string option \<Rightarrow> GameState \<Rightarrow> GameState \<Rightarrow> bool \<Rightarrow> SettleTask list" where
  "settleGuard w cur prev latch =
     (case (w, roomId cur) of
        (Some wn, Some rid) \<Rightarrow>
          (if truthyStr w \<and> truthyStr (roomId cur)
              \<and> \<not> truthyBool (gameFinishedOnBlockchain prev) \<and> \<not> latch
           then [\<lparr> taskWinner = wn, taskRoom = rid, taskPlayers = players cur \<rparr>]
           else [])
      | _ \<Rightarrow> [])"

text \<open>
  \<open>BlockchainService\<close>: the fields that \<open>finishGame\<close>, \<open>isReady\<close>, \<open>getCurrentAddress\<close>,
  \<open>initialize\<close> and \<open>stake\<close> read and write. \<open>signer\<close> holds the wallet's address when a
  signer exists; \<open>tugOfWarContract\<close> tells whether the contract object is set.
  \<open>contractCalls\<close> is not a field of the class: it records, in order, every invocation
  \<open>this.tugOfWarContract.finishGame(roomId, winner)\<close>, so that invocations can be counted.
\<close>

record BlockchainService =
  isInitialized :: bool
  tugOfWarContract :: bool
  signer :: "string option"
  finishedGames :: "string set"
  contractCalls :: "(string \<times> string) list"

text \<open>
  One client process: the value of \<open>useStateTogether\<close>, the refs of the \<open>Game\<close> component,
  the singleton service, the settlement tasks suspended before their body, and the rooms
  of the transactions sent and not yet settled. \<open>serviceCalls\<close> records the invocations
  \<open>blockchainService.finishGame(roomId, winnerAddress)\<close> that \<open>Game.tsx\<close> makes.
\<close>

record GameClient =
  gameState :: GameState
  lastUpdateRef :: int
  finishGameCalledRef :: bool
  service :: BlockchainService
  pendingTasks :: "SettleTask list"
  inFlight :: "string list"
  serviceCalls :: "(string \<times> string) list"

text \<open>
  One firing of the interval at time \<open>now\<close>. \<open>cur\<close> is \<open>currentStateRef.current\<close>; the
  updater's \<open>prevState\<close> is the client's latest \<open>gameState\<close>. When the write is due but the
  last write is less than 50 ms old the callback returns without calling \<open>setGameState\<close>.
\<close>

definition gameLoop :: "int \<Rightarrow> GameState \<Rightarrow> GameClient \<Rightarrow> GameClient" where
  "gameLoop now cur c =
     (let (p, shouldUpdate) = pullStep cur;
          w = winCheck p
      in if shouldUpdate \<or> truthyStr w then
           (if now - lastUpdateRef c < 50 then c
            else
              let prev = gameState c
              in c\<lparr> lastUpdateRef := now,
                    gameState := loopState p w prev,
                    pendingTasks := pendingTasks c @ settleGuard w cur prev (finishGameCalledRef c) \<rparr>)
         else c)"

text \<open>
  A resolution tick of a client whose \<open>currentStateRef\<close> is up to date (the effect
  \<open>currentStateRef.current = gameState\<close> has run since the last change).
\<close>

definition resolutionTick :: "int \<Rightarrow> GameClient \<Rightarrow> GameClient" where
  "resolutionTick now c = gameLoop now (gameState c) c"

text \<open>The interval exists while the effect's guard \<open>!gameState.isStarted || gameState.winner\<close> fails.\<close>

definition loopActive :: "GameState \<Rightarrow> bool" where
  "loopActive s = (isStarted s \<and> \<not> truthyStr (winner s))"

definition inBounds :: "rat \<Rightarrow> bool" where
  "inBounds p = (centerX - maxDistance \<le> p \<and> p \<le> centerX + maxDistance)"

text \<open>The mount effect of \<open>Game\<close>: \<open>setGameState(prev => ({...prev, ropePosition: 600}))\<close>
  and \<open>finishGameCalledRef.current = false\<close>.\<close>

definition mountReset :: "GameClient \<Rightarrow> GameClient" where
  "mountReset c = c\<lparr> gameState := (gameState c)\<lparr> ropePosition := 600 \<rparr>, finishGameCalledRef := False \<rparr>"

section \<open>The renderer (\<open>GameScene\<close>)\<close>

text \<open>
  \<open>Partial<GameState>\<close> as the scene passes it to \<open>updateCallback\<close>: \<open>None\<close> is a key that
  is absent. \<open>countdown: undefined\<close> is a key that is present with the value \<open>undefined\<close>,
  hence the nested option.
\<close>

record StateUpdate =
  updIsStarted :: "bool option"
  updRopePosition :: "rat option"
  updPlayer1Pulling :: "bool option"
  updPlayer2Pulling :: "bool option"
  updWinner :: "string option"
  updCountdown :: "int option option"
  updIsCountingDown :: "bool option"

definition emptyUpdate :: StateUpdate where
  "emptyUpdate = \<lparr> updIsStarted = None, updRopePosition = None, updPlayer1Pulling = None,
     updPlayer2Pulling = None, updWinner = None, updCountdown = None, updIsCountingDown = None \<rparr>"

text \<open>The callback that \<open>Game\<close> installs: \<open>setGameState(prev => ({ ...prev, ...updates }))\<close>.\<close>

definition applyUpdate :: "StateUpdate \<Rightarrow> GameState \<Rightarrow> GameState" where
  "applyUpdate u prev =
     prev\<lparr> isStarted := (case updIsStarted u of None \<Rightarrow> isStarted prev | Some b \<Rightarrow> b),
           ropePosition := (case updRopePosition u of None \<Rightarrow> ropePosition prev | Some p \<Rightarrow> p),
           player1Pulling := (case updPlayer1Pulling u of None \<Rightarrow> player1Pulling prev | Some b \<Rightarrow> b),
           player2Pulling := (case updPlayer2Pulling u of None \<Rightarrow> player2Pulling prev | Some b \<Rightarrow> b),
           winner := (case updWinner u of None \<Rightarrow> winner prev | Some w \<Rightarrow> Some w),
           countdown := (case updCountdown u of None \<Rightarrow> countdown prev | Some v \<Rightarrow> v),
           isCountingDown := (case updIsCountingDown u of None \<Rightarrow> isCountingDown prev | Some b \<Rightarrow> Some b) \<rparr>"

text \<open>
  The fields of the scene that the timer and the input handler use. \<open>hasUpdateCallback\<close>
  tells whether \<open>updateCallback\<close> is set, \<open>ropeX\<close> is \<open>this.rope.x\<close> when the sprite exists,
  and \<open>cameraCenterX\<close> is \<open>this.cameras.main.centerX\<close>, a value of the framework (600 for
  the configured width of 1200).

  \<open>this.time.addEvent\<close> registers a looping timer event with the scene's clock, where it
  stays and fires until it is destroyed. \<open>timerEvent\<close> tells whether the field
  \<open>this.timerEvent\<close> refers to such an event; \<open>orphanTimers\<close> counts the events of the clock
  that are still alive and that the field refers to no more, because it was overwritten.
\<close>

record GameScene =
  sceneState :: "GameState option"
  hasUpdateCallback :: bool
  playerRole :: "string option"
  currentPlayerAddress :: "string option"
  currentPlayer1Pulling :: bool
  currentPlayer2Pulling :: bool
  lastStateUpdateTime :: int
  pullCooldown :: rat
  ropeX :: "rat option"
  cameraCenterX :: rat
  gameTimeRemaining :: int
  timerEvent :: bool
  orphanTimers :: nat
  lastWinner :: "string option"

definition GAME_DURATION :: int where
  "GAME_DURATION = 60"

definition PULL_COOLDOWN_TIME :: rat where
  "PULL_COOLDOWN_TIME = 100"

definition STATE_UPDATE_THROTTLE :: int where
  "STATE_UPDATE_THROTTLE = 50"

definition ROPE_BOUNDS_MARGIN :: rat where
  "ROPE_BOUNDS_MARGIN = 50"

definition clampRopePosition :: "GameScene \<Rightarrow> rat \<Rightarrow> rat" where
  "clampRopePosition sc position =
     max (cameraCenterX sc - 350 + ROPE_BOUNDS_MARGIN)
         (min (cameraCenterX sc + 350 - ROPE_BOUNDS_MARGIN) position)"

text \<open>
  \<open>handlePull\<close> at time \<open>now\<close>: the scene afterwards and the update emitted, if any.
\<close>

definition handlePull :: "int \<Rightarrow> GameScene \<Rightarrow> GameScene \<times> StateUpdate option" where
  "handlePull now sc =
     (if now - lastStateUpdateTime sc < STATE_UPDATE_THROTTLE then (sc, None)
      else if playerRole sc = Some ''player1'' \<and> currentPlayer1Pulling sc then (sc, None)
      else if playerRole sc = Some ''player2'' \<and> currentPlayer2Pulling sc then (sc, None)
      else
        let sc1 = sc\<lparr> lastStateUpdateTime := now \<rparr>;
            sc2 = (if playerRole sc1 = Some ''player1'' then sc1\<lparr> currentPlayer1Pulling := True \<rparr>
                   else if playerRole sc1 = Some ''player2'' then sc1\<lparr> currentPlayer2Pulling := True \<rparr>
                   else sc1);
            emitted = (if hasUpdateCallback sc2
                       then Some (emptyUpdate\<lparr> updPlayer1Pulling := Some (currentPlayer1Pulling sc2),
                                               updPlayer2Pulling := Some (currentPlayer2Pulling sc2) \<rparr>)
                       else None)
        in (sc2\<lparr> currentPlayer1Pulling := False, currentPlayer2Pulling := False \<rparr>, emitted))"

text \<open>The listener of the space key's \<open>down\<close> event, installed by \<open>setupInput\<close>.\<close>

definition onSpaceDown :: "int \<Rightarrow> GameScene \<Rightarrow> GameScene \<times> StateUpdate option" where
  "onSpaceDown now sc =
     (if pullCooldown sc > 0 then (sc, None)
      else if \<not> truthyStr (playerRole sc) then (sc, None)
      else (case sceneState sc of
        None \<Rightarrow> (sc, None)
      | Some gs \<Rightarrow>
          (if \<not> isStarted gs then (sc, None)
           else (case currentPlayerAddress sc of
             None \<Rightarrow> (sc, None)
           | Some a \<Rightarrow>
               (if a = [] then (sc, None)
                else (case findAddress a (players gs) of
                  None \<Rightarrow> (sc, None)
                | Some (addr, pl) \<Rightarrow>
                    (if \<not> isReady pl then (sc, None)
                     else (case handlePull now sc of
                       (sc', e) \<Rightarrow> (sc'\<lparr> pullCooldown := PULL_COOLDOWN_TIME \<rparr>, e)))))))))"

text \<open>
  \<open>startGameTimer\<close>, \<open>stopGameTimer\<close>, \<open>handleTimeUp\<close> and the timer's callback \<open>updateTimer\<close>.
  \<open>startGameTimer\<close> assigns the new event to \<open>this.timerEvent\<close> without destroying the
  event that the field may refer to: that one stays alive in the clock. \<open>stopGameTimer\<close> and
  \<open>handleTimeUp\<close> destroy the event that the field refers to, and no other.
\<close>

definition startGameTimer :: "GameScene \<Rightarrow> GameScene" where
  "startGameTimer sc =
     sc\<lparr> gameTimeRemaining := GAME_DURATION,
         orphanTimers := orphanTimers sc + (if timerEvent sc then 1 else 0),
         timerEvent := True \<rparr>"

definition stopGameTimer :: "GameScene \<Rightarrow> GameScene" where
  "stopGameTimer sc = sc\<lparr> timerEvent := False, gameTimeRemaining := GAME_DURATION \<rparr>"

definition timeUpWinner :: "GameScene \<Rightarrow> string" where
  "timeUpWinner sc =
     (let centerX' = cameraCenterX sc;
          ropePosition' = (case ropeX sc of Some x \<Rightarrow> x | None \<Rightarrow> centerX');
          distanceFromCenter = ropePosition' - centerX'
      in if distanceFromCenter \<le> 0 then ''player1'' else ''player2'')"

definition handleTimeUp :: "GameScene \<Rightarrow> GameScene \<times> StateUpdate option" where
  "handleTimeUp sc =
     (let sc1 = sc\<lparr> timerEvent := False \<rparr>;
          winner' = timeUpWinner sc1
      in (sc1,
          if hasUpdateCallback sc1
          then Some (emptyUpdate\<lparr> updWinner := Some winner', updIsStarted := Some False,
                                  updPlayer1Pulling := Some False, updPlayer2Pulling := Some False,
                                  updCountdown := Some None, updIsCountingDown := Some False \<rparr>)
          else None))"

definition updateTimer :: "GameScene \<Rightarrow> GameScene \<times> StateUpdate option" where
  "updateTimer sc =
     (let sc1 = sc\<lparr> gameTimeRemaining := gameTimeRemaining sc - 1 \<rparr>
      in if gameTimeRemaining sc1 \<le> 0 then handleTimeUp sc1 else (sc1, None))"

text \<open>
  One second of the scene's clock, counted from the creation of the newest timer event:
  every live event fires \<open>updateTimer\<close> once, the older ones (which the field refers to no
  more) before the one that the field refers to. A destroyed event fires no more. The
  result is the scene afterwards and the updates emitted, in order.
\<close>

definition updatesOf :: "StateUpdate option \<Rightarrow> StateUpdate list" where
  "updatesOf e = (case e of None \<Rightarrow> [] | Some u \<Rightarrow> [u])"

fun fireOrphans :: "nat \<Rightarrow> GameScene \<Rightarrow> GameScene \<times> StateUpdate list" where
  "fireOrphans 0 sc = (sc, [])"
| "fireOrphans (Suc k) sc =
     (let (sc1, e) = updateTimer sc;
          (sc2, es) = fireOrphans k sc1
      in (sc2, updatesOf e @ es))"

definition timerSecond :: "GameScene \<Rightarrow> GameScene \<times> StateUpdate list" where
  "timerSecond sc =
     (let (sc1, es) = fireOrphans (orphanTimers sc) sc
      in if timerEvent sc1
         then (let (sc2, e) = updateTimer sc1 in (sc2, es @ updatesOf e))
         else (sc1, es))"

text \<open>\<open>handleWin\<close>: the part that touches the scene's fields and the shared state.\<close>

definition handleWin :: "string \<Rightarrow> GameScene \<Rightarrow> GameScene \<times> StateUpdate option" where
  "handleWin winner' sc =
     (if \<not> hasUpdateCallback sc \<or> ropeX sc = None then (sc, None)
      else
        let sc1 = stopGameTimer sc;
            finalRopePosition = (if winner' = ''player1'' then 300 else 900)
        in (sc1\<lparr> ropeX := Some finalRopePosition \<rparr>,
            Some (emptyUpdate\<lparr> updIsStarted := Some False, updWinner := Some winner',
                                updPlayer1Pulling := Some False, updPlayer2Pulling := Some False,
                                updRopePosition := Some finalRopePosition,
                                updCountdown := Some None, updIsCountingDown := Some False \<rparr>)))"

text \<open>
  \<open>updateGameState\<close>: the scene takes the new shared state, starts the timer when the game
  has just started, mirrors the pulling flags, moves the rope sprite, and calls
  \<open>handleWin\<close> for a winner it has not shown yet.
\<close>

definition updateGameState :: "GameState \<Rightarrow> GameScene \<Rightarrow> GameScene \<times> StateUpdate option" where
  "updateGameState newGameState sc =
     (let gameJustStarted =
            (\<not> (case sceneState sc of None \<Rightarrow> False | Some g \<Rightarrow> isStarted g) \<and> isStarted newGameState);
          sc1 = sc\<lparr> sceneState := Some newGameState \<rparr>;
          sc2 = (if gameJustStarted then startGameTimer sc1 else sc1);
          sc3 = sc2\<lparr> currentPlayer1Pulling := player1Pulling newGameState,
                     currentPlayer2Pulling := player2Pulling newGameState \<rparr>;
          sc4 = (case ropeX sc3 of None \<Rightarrow> sc3
                 | Some x \<Rightarrow> sc3\<lparr> ropeX := Some (clampRopePosition sc3 (ropePosition newGameState)) \<rparr>)
      in if truthyStr (winner newGameState) \<and> winner newGameState \<noteq> lastWinner sc4
         then (case winner newGameState of
                 None \<Rightarrow> (sc4, None)
               | Some w \<Rightarrow> handleWin w (sc4\<lparr> lastWinner := Some w \<rparr>))
         else (sc4, None))"

text \<open>
  What happens to a scene during play: the shared state changes and \<open>Game\<close> passes the new
  state to \<open>updateGameState\<close>, or a second of the clock goes by. \<open>runScene\<close> runs a sequence
  of such events and collects the updates that the scene emits.
\<close>

datatype SceneEvent = StateChange GameState | Second

fun sceneStep :: "SceneEvent \<Rightarrow> GameScene \<Rightarrow> GameScene \<times> StateUpdate list" where
  "sceneStep (StateChange g) sc = (case updateGameState g sc of (sc', e) \<Rightarrow> (sc', updatesOf e))"
| "sceneStep Second sc = timerSecond sc"

fun runScene :: "SceneEvent list \<Rightarrow> GameScene \<Rightarrow> GameScene \<times> StateUpdate list" where
  "runScene [] sc = (sc, [])"
| "runScene (e # es) sc =
     (let (sc1, us1) = sceneStep e sc;
          (sc2, us2) = runScene es sc1
      in (sc2, us1 @ us2))"

text \<open>
  A state change during play: the new state is started and has no winner. The number of
  seconds in a sequence of events, and the rope position of the last state that the
  sequence passes to the scene (\<open>p\<close> when it passes none).
\<close>

fun duringPlay :: "SceneEvent \<Rightarrow> bool" where
  "duringPlay (StateChange g) = (isStarted g \<and> \<not> truthyStr (winner g))"
| "duringPlay Second = True"

fun seconds :: "SceneEvent list \<Rightarrow> nat" where
  "seconds [] = 0"
| "seconds (StateChange g # es) = seconds es"
| "seconds (Second # es) = Suc (seconds es)"

fun lastRope :: "rat \<Rightarrow> SceneEvent list \<Rightarrow> rat" where
  "lastRope p [] = p"
| "lastRope p (StateChange g # es) = lastRope (ropePosition g) es"
| "lastRope p (Second # es) = lastRope p es"

section \<open>The match state machine (\<open>Home.tsx\<close>)\<close>

text \<open>The initial value that \<open>Home\<close> gives to \<open>useStateTogether\<close> for the room's key.\<close>

definition orNull :: "string option \<Rightarrow> string option" where
  "orNull r = (if truthyStr r then r else None)"

definition initialGameState :: "string option \<Rightarrow> GameState" where
  "initialGameState rid =
     \<lparr> players = [], roomId = orNull rid, isStarted = False, ropePosition = 600,
       player1Pulling = False, player2Pulling = False, winner = None,
       gameFinishedOnBlockchain = None, showStartButton = None, countdown = None,
       isCountingDown = None \<rparr>"

text \<open>
  \<open>handlePlayerJoin\<close> (the effect, and the same steps in \<open>handleConnect\<close>). The outcome tells
  which branch ran; \<open>joinError\<close> is the argument of \<open>setError\<close> and \<open>joinRedirect\<close> tells
  whether \<open>setTimeout(() => navigate('/'), 2000)\<close> was scheduled. \<open>snap\<close> is the rendered
  \<open>safeGameState\<close> that the branch conditions read, \<open>prev\<close> the updater's \<open>prevState\<close>.
\<close>

datatype JoinOutcome = NotConnected | AlreadyInGame | JoinedAs string | RoomFull

record JoinResult =
  joinState :: GameState
  joinOutcome :: JoinOutcome
  joinError :: "string option"
  joinRedirect :: bool

definition joinUpdater :: "string \<Rightarrow> string \<Rightarrow> GameState \<Rightarrow> GameState" where
  "joinUpdater a r prev =
     prev\<lparr> players := setKey a \<lparr> role = r, isReady = False \<rparr> (players prev),
           showStartButton := Some False,
           countdown := None,
           isCountingDown := Some False,
           gameFinishedOnBlockchain := Some False \<rparr>"

definition handlePlayerJoinAt ::
  "string option \<Rightarrow> bool \<Rightarrow> string option \<Rightarrow> GameState \<Rightarrow> GameState \<Rightarrow> JoinResult" where
  "handlePlayerJoinAt currentAddress hasSigner rid snap prev =
     (case currentAddress of
        None \<Rightarrow> \<lparr> joinState = prev, joinOutcome = NotConnected, joinError = None, joinRedirect = False \<rparr>
      | Some a \<Rightarrow>
          if a = [] \<or> \<not> hasSigner
          then \<lparr> joinState = prev, joinOutcome = NotConnected, joinError = None, joinRedirect = False \<rparr>
          else if findAddress a (players snap) \<noteq> None
          then \<lparr> joinState = prev, joinOutcome = AlreadyInGame, joinError = None, joinRedirect = False \<rparr>
          else if \<not> (length (players snap) > 0)
          then \<lparr> joinState = (joinUpdater a ''player1'' prev)\<lparr> roomId := orNull rid \<rparr>,
                 joinOutcome = JoinedAs ''player1'', joinError = None, joinRedirect = False \<rparr>
          else if \<not> list_ex (\<lambda>(addr, p). role p = ''player2'') (players snap)
          then \<lparr> joinState = joinUpdater a ''player2'' prev,
                 joinOutcome = JoinedAs ''player2'', joinError = None, joinRedirect = False \<rparr>
          else \<lparr> joinState = prev, joinOutcome = RoomFull,
                 joinError = Some ''Room is full'', joinRedirect = True \<rparr>)"

text \<open>The join of a client whose rendered state is the latest state.\<close>

definition handlePlayerJoin :: "string option \<Rightarrow> bool \<Rightarrow> string option \<Rightarrow> GameState \<Rightarrow> JoinResult" where
  "handlePlayerJoin currentAddress hasSigner rid s = handlePlayerJoinAt currentAddress hasSigner rid s s"

text \<open>
  \<open>handleStakeSuccess\<close>: the updater, for a connected address. \<open>prevState.players[a]\<close> is
  read with the exact key; spreading \<open>undefined\<close> gives an entry without a role, which
  the model writes as the empty role.
\<close>

definition handleStakeSuccess :: "string \<Rightarrow> GameState \<Rightarrow> GameState" where
  "handleStakeSuccess a prev =
     (let old = (case map_of (players prev) a of None \<Rightarrow> \<lparr> role = [], isReady = False \<rparr> | Some p \<Rightarrow> p);
          updatedPlayers = setKey a (old\<lparr> isReady := True \<rparr>) (players prev);
          allReady = list_all (\<lambda>(addr, p). isReady p) updatedPlayers;
          hasAllPlayers = (length updatedPlayers \<ge> 2);
          isPlayer1 = (case map_of updatedPlayers a of None \<Rightarrow> False | Some p \<Rightarrow> role p = ''player1'')
      in prev\<lparr> players := updatedPlayers,
               showStartButton :=
                 Some (truthyBool (showStartButton prev)
                       \<or> (allReady \<and> hasAllPlayers \<and> isPlayer1 \<and> \<not> isStarted prev
                           \<and> \<not> truthyStr (winner prev) \<and> \<not> truthyBool (isCountingDown prev))) \<rparr>)"

text \<open>The effect that shows the start button to \<open>player1\<close>.\<close>

definition startButtonEffect :: "string \<Rightarrow> GameState \<Rightarrow> GameState" where
  "startButtonEffect a s =
     (let allReady = list_all (\<lambda>(addr, p). isReady p) (players s);
          hasAllPlayers = (length (players s) \<ge> 2);
          isPlayer1 = (case map_of (players s) a of None \<Rightarrow> False | Some p \<Rightarrow> role p = ''player1'')
      in if allReady \<and> hasAllPlayers \<and> isPlayer1 \<and> \<not> isStarted s \<and> \<not> truthyBool (showStartButton s)
            \<and> \<not> truthyStr (winner s) \<and> \<not> truthyBool (isCountingDown s)
         then s\<lparr> showStartButton := Some True \<rparr>
         else s)"

text \<open>\<open>handleStartGame\<close>: the first updater, and the updater of the one-second interval,
  which also tells whether it called \<open>clearInterval\<close>.\<close>

definition handleStartGame :: "GameState \<Rightarrow> GameState" where
  "handleStartGame prev =
     prev\<lparr> showStartButton := Some False, isStarted := False, countdown := Some 3,
           isCountingDown := Some True \<rparr>"

definition countdownTick :: "GameState \<Rightarrow> GameState \<times> bool" where
  "countdownTick prev =
     (let newCountdown = (case countdown prev of
                            None \<Rightarrow> 3
                          | Some n \<Rightarrow> if n \<noteq> 0 then n else 3) - 1
      in if newCountdown \<le> 0
         then (prev\<lparr> isStarted := True, isCountingDown := Some False, countdown := None \<rparr>, True)
         else (prev\<lparr> countdown := Some newCountdown \<rparr>, False))"

text \<open>\<open>n\<close> seconds of the countdown interval; it fires no more once cleared.\<close>

fun runCountdown :: "nat \<Rightarrow> GameState \<Rightarrow> GameState \<times> bool" where
  "runCountdown 0 s = (s, False)"
| "runCountdown (Suc n) s =
     (case countdownTick s of
        (s', True) \<Rightarrow> (s', True)
      | (s', False) \<Rightarrow> runCountdown n s')"

section \<open>The settlement client (\<open>BlockchainService\<close>)\<close>

datatype ServiceError = NotInitialized | AlreadyStaked | TransactionFailed

text \<open>
  What the chain answers to a transaction is an input of the model: it is confirmed, or
  sending it or waiting for its receipt throws.
\<close>

datatype TxOutcome = Confirmed | Rejected

definition initialService :: BlockchainService where
  "initialService = \<lparr> isInitialized = False, tugOfWarContract = False, signer = None,
     finishedGames = {}, contractCalls = [] \<rparr>"

text \<open>
  \<open>initialize\<close>, by the statement at which it throws, if any: before the signer is
  assigned, at the network check, while registering listeners, or not at all.
\<close>

datatype InitOutcome = InitThrowsEarly | InitWrongNetwork string | InitListenerThrows string | InitOk string

definition initialize :: "InitOutcome \<Rightarrow> BlockchainService \<Rightarrow> BlockchainService" where
  "initialize out svc =
     (case out of
        InitThrowsEarly \<Rightarrow> svc
      | InitWrongNetwork a \<Rightarrow> svc\<lparr> signer := Some a \<rparr>
      | InitListenerThrows a \<Rightarrow> svc\<lparr> signer := Some a, tugOfWarContract := True \<rparr>
      | InitOk a \<Rightarrow> svc\<lparr> signer := Some a, tugOfWarContract := True, isInitialized := True \<rparr>)"

definition serviceIsReady :: "BlockchainService \<Rightarrow> bool" where
  "serviceIsReady svc = isInitialized svc"

definition getCurrentAddress :: "BlockchainService \<Rightarrow> ServiceError + string" where
  "getCurrentAddress svc =
     (if \<not> isInitialized svc then Inl NotInitialized
      else case signer svc of None \<Rightarrow> Inl NotInitialized | Some a \<Rightarrow> Inr a)"

text \<open>
  \<open>stake\<close>, as far as it touches the fields above: \<open>hasStaked\<close> is the contract's answer to
  \<open>hasStaked(roomId, playerAddress)\<close>.
\<close>

definition stake :: "string \<Rightarrow> bool \<Rightarrow> TxOutcome \<Rightarrow> BlockchainService \<Rightarrow> (ServiceError + unit) \<times> BlockchainService" where
  "stake rid hasStaked out svc =
     (if \<not> isInitialized svc \<or> \<not> tugOfWarContract svc then (Inl NotInitialized, svc)
      else if hasStaked then (Inl AlreadyStaked, svc)
      else
        let svc1 = svc\<lparr> finishedGames := finishedGames svc - {rid} \<rparr>
        in case out of Confirmed \<Rightarrow> (Inr (), svc1) | Rejected \<Rightarrow> (Inl TransactionFailed, svc1))"

text \<open>
  \<open>finishGame\<close> in two parts, split at its first \<open>await\<close>. \<open>finishGameCall\<close> is the
  synchronous part: it throws, returns because the room is already finished, or invokes
  the contract method and suspends. \<open>finishGameSettle\<close> is the rest, run when the
  transaction settles: the room is added to \<open>finishedGames\<close> on confirmation, and the error
  is rethrown otherwise. (\<open>emit\<close> catches the errors of its handlers and throws nothing.)
\<close>

datatype CallStatus = Threw ServiceError | Skipped | Sent

definition finishGameCall :: "string \<Rightarrow> string \<Rightarrow> BlockchainService \<Rightarrow> CallStatus \<times> BlockchainService" where
  "finishGameCall rid winner' svc =
     (if \<not> isInitialized svc \<or> \<not> tugOfWarContract svc then (Threw NotInitialized, svc)
      else if rid \<in> finishedGames svc then (Skipped, svc)
      else (Sent, svc\<lparr> contractCalls := contractCalls svc @ [(rid, winner')] \<rparr>))"

definition finishGameSettle :: "string \<Rightarrow> TxOutcome \<Rightarrow> BlockchainService \<Rightarrow> (ServiceError + unit) \<times> BlockchainService" where
  "finishGameSettle rid out svc =
     (case out of
        Confirmed \<Rightarrow> (Inr (), svc\<lparr> finishedGames := insert rid (finishedGames svc) \<rparr>)
      | Rejected \<Rightarrow> (Inl TransactionFailed, svc))"

text \<open>The whole call, when nothing else runs between its two parts.\<close>

definition finishGame :: "string \<Rightarrow> string \<Rightarrow> TxOutcome \<Rightarrow> BlockchainService \<Rightarrow> (ServiceError + unit) \<times> BlockchainService" where
  "finishGame rid winner' out svc =
     (case finishGameCall rid winner' svc of
        (Threw e, svc') \<Rightarrow> (Inl e, svc')
      | (Skipped, svc') \<Rightarrow> (Inr (), svc')
      | (Sent, svc') \<Rightarrow> finishGameSettle rid out svc')"

text \<open>The states of the singleton that its methods can produce.\<close>

inductive serviceReachable :: "BlockchainService \<Rightarrow> bool" where
  sr_initial: "serviceReachable initialService"
| sr_initialize: "serviceReachable svc \<Longrightarrow> serviceReachable (initialize out svc)"
| sr_stake: "serviceReachable svc \<Longrightarrow> serviceReachable (snd (stake rid hasStaked out svc))"
| sr_finishGame: "serviceReachable svc \<Longrightarrow> serviceReachable (snd (finishGame rid winner' out svc))"

section \<open>The settlement trigger (\<open>Game.tsx\<close>, the asynchronous function of the updater)\<close>

text \<open>
  The body of the task from its resumption to the next suspension: the check of
  \<open>isReady\<close>, the local address, the comparison with the address of the first entry whose
  role is \<open>player1\<close>, the winner's address, the latch, and the synchronous part of
  \<open>blockchainService.finishGame\<close>. Every \<open>throw\<close> is caught by the task's \<open>catch\<close>, which
  only logs. When the service returns at once (the room is already finished) the task
  goes on to publish \<open>gameFinishedOnBlockchain: true\<close>.
\<close>

definition settleBody :: "SettleTask \<Rightarrow> GameClient \<Rightarrow> GameClient" where
  "settleBody t c =
     (if \<not> serviceIsReady (service c) then c
      else (case getCurrentAddress (service c) of
        Inl e \<Rightarrow> c
      | Inr currentPlayerAddress' \<Rightarrow>
          (case findRole ''player1'' (taskPlayers t) of
             None \<Rightarrow> c
           | Some (addr1, p1) \<Rightarrow>
               (if toLowerCase addr1 = toLowerCase currentPlayerAddress' then
                  (case findRole (taskWinner t) (taskPlayers t) of
                     None \<Rightarrow> c
                   | Some (winnerAddress, pw) \<Rightarrow>
                       (let (st, svc') = finishGameCall (taskRoom t) winnerAddress (service c);
                            c1 = c\<lparr> finishGameCalledRef := True,
                                    service := svc',
                                    serviceCalls := serviceCalls c @ [(taskRoom t, winnerAddress)] \<rparr>
                        in (case st of
                              Threw e \<Rightarrow> c1
                            | Skipped \<Rightarrow>
                                c1\<lparr> gameState := (gameState c1)\<lparr> gameFinishedOnBlockchain := Some True \<rparr> \<rparr>
                            | Sent \<Rightarrow> c1\<lparr> inFlight := inFlight c1 @ [taskRoom t] \<rparr>)))
                else c))))"

text \<open>
  The rest of the task, run when its transaction settles: on confirmation the service
  records the room and the task publishes \<open>gameFinishedOnBlockchain: true\<close>; on failure the
  error is logged and nothing is reset.
\<close>

definition settleTx :: "string \<Rightarrow> TxOutcome \<Rightarrow> GameClient \<Rightarrow> GameClient" where
  "settleTx rid out c =
     (case finishGameSettle rid out (service c) of
        (Inr u, svc') \<Rightarrow> c\<lparr> service := svc',
                           gameState := (gameState c)\<lparr> gameFinishedOnBlockchain := Some True \<rparr> \<rparr>
      | (Inl e, svc') \<Rightarrow> c\<lparr> service := svc' \<rparr>)"

text \<open>
  What can happen in one client process, one event per uninterrupted run of code: the
  interval fires at a time with a value of \<open>currentStateRef.current\<close>; the oldest suspended
  task resumes, its \<open>await\<close>s of the dynamic import and of \<open>getCurrentAddress\<close> being over;
  the oldest transaction in flight settles. The code puts no bound on how long an \<open>await\<close>
  takes, so the events of a schedule come in any order.
\<close>

datatype Event = Tick int GameState | Resume | Settle TxOutcome

fun step :: "Event \<Rightarrow> GameClient \<Rightarrow> GameClient" where
  "step (Tick now cur) c = gameLoop now cur c"
| "step Resume c =
     (case pendingTasks c of
        [] \<Rightarrow> c
      | t # ts \<Rightarrow> settleBody t (c\<lparr> pendingTasks := ts \<rparr>))"
| "step (Settle out) c =
     (case inFlight c of
        [] \<Rightarrow> c
      | rid # rs \<Rightarrow> settleTx rid out (c\<lparr> inFlight := rs \<rparr>))"

fun run :: "Event list \<Rightarrow> GameClient \<Rightarrow> GameClient" where
  "run [] c = c"
| "run (e # es) c = run es (step e c)"

definition initialClient :: "GameState \<Rightarrow> BlockchainService \<Rightarrow> GameClient" where
  "initialClient s svc =
     \<lparr> gameState = s, lastUpdateRef = 0, finishGameCalledRef = False, service = svc,
       pendingTasks = [], inFlight = [], serviceCalls = [] \<rparr>"

section \<open>Reachable states of a client\<close>

text \<open>The updates that the scene can pass to \<open>updateCallback\<close>: from a key press, from the
  timer, and from \<open>updateGameState\<close> (which calls \<open>handleWin\<close>).\<close>

inductive rendererEmits :: "StateUpdate \<Rightarrow> bool" where
  re_key: "onSpaceDown now sc = (sc', Some u) \<Longrightarrow> rendererEmits u"
| re_timer: "updateTimer sc = (sc', Some u) \<Longrightarrow> rendererEmits u"
| re_state: "updateGameState gs sc = (sc', Some u) \<Longrightarrow> rendererEmits u"

text \<open>
  The states of a client process: it starts from the initial value that \<open>Home\<close> gives to
  the room's key, and every writer of the state takes it one step further. (\<open>Game\<close> passes
  an initial value of its own to the same key, with the rope at half the window's width;
  \<open>Home\<close> has initialised the key before \<open>Game\<close> mounts, and the mount effect of \<open>Game\<close>
  sets the rope to 600 before play in any case.) The interval may read a stale
  \<open>currentStateRef\<close>, which then holds the state of an earlier reachable client. The writes
  of the other clients of the room are writes of the same kinds.
\<close>

inductive reachable :: "GameClient \<Rightarrow> bool" where
  r_init: "serviceReachable svc \<Longrightarrow> reachable (initialClient (initialGameState rid) svc)"
| r_mount: "reachable c \<Longrightarrow> reachable (mountReset c)"
| r_join: "reachable c \<Longrightarrow>
     reachable (c\<lparr> gameState := joinState (handlePlayerJoin a sg rid (gameState c)) \<rparr>)"
| r_stake: "reachable c \<Longrightarrow> reachable (c\<lparr> gameState := handleStakeSuccess a (gameState c) \<rparr>)"
| r_button: "reachable c \<Longrightarrow> reachable (c\<lparr> gameState := startButtonEffect a (gameState c) \<rparr>)"
| r_start: "reachable c \<Longrightarrow> reachable (c\<lparr> gameState := handleStartGame (gameState c) \<rparr>)"
| r_countdown: "reachable c \<Longrightarrow> reachable (c\<lparr> gameState := fst (countdownTick (gameState c)) \<rparr>)"
| r_render: "reachable c \<Longrightarrow> rendererEmits u \<Longrightarrow>
     reachable (c\<lparr> gameState := applyUpdate u (gameState c) \<rparr>)"
| r_tick: "reachable c \<Longrightarrow> reachable c0 \<Longrightarrow> reachable (gameLoop now (gameState c0) c)"
| r_resume: "reachable c \<Longrightarrow> reachable (step Resume c)"
| r_settle: "reachable c \<Longrightarrow> reachable (step (Settle out) c)"

section \<open>Sequential schedules\<close>

text \<open>Sequential schedules of one client: every firing of the interval is followed by
  the resumption of the task it may have started, before the interval fires again;
  transactions settle at any time in between.\<close>

datatype SeqEvent = TickThenResume int GameState | SettleNow TxOutcome

fun seqStep :: "SeqEvent \<Rightarrow> GameClient \<Rightarrow> GameClient" where
  "seqStep (TickThenResume now cur) c = step Resume (step (Tick now cur) c)"
| "seqStep (SettleNow out) c = step (Settle out) c"

fun seqRun :: "SeqEvent list \<Rightarrow> GameClient \<Rightarrow> GameClient" where
  "seqRun [] c = c"
| "seqRun (e # es) c = seqRun es (seqStep e c)"

text \<open>What holds between the events of a sequential schedule.\<close>

definition seqInv :: "GameClient \<Rightarrow> bool" where
  "seqInv c = (pendingTasks c = []
      \<and> (serviceCalls c = [] \<or> (finishGameCalledRef c \<and> length (serviceCalls c) = 1))
      \<and> length (contractCalls (service c)) \<le> length (serviceCalls c))"

section \<open>The scenario of the specification\<close>

text \<open>The room when it is empty, after player A has joined, and after player B has joined.\<close>

definition roomEmpty :: GameState where
  "roomEmpty = initialGameState (Some ''room'')"

definition roomOne :: GameState where
  "roomOne = joinState (handlePlayerJoin (Some ''0xA1'') True (Some ''room'') roomEmpty)"

definition roomTwo :: GameState where
  "roomTwo = joinState (handlePlayerJoin (Some ''0xB2'') True (Some ''room'') roomOne)"

text \<open>
  Player A joins the empty room, player B joins, both stake, A is shown the start button
  and presses it, and the countdown runs for three seconds.
\<close>

definition scenarioStart :: GameState where
  "scenarioStart =
     (let s3 = handleStakeSuccess ''0xA1'' roomTwo;
          s4 = handleStakeSuccess ''0xB2'' s3;
          s5 = startButtonEffect ''0xA1'' s4;
          s6 = handleStartGame s5
      in fst (runCountdown 3 s6))"

text \<open>The service of player A once initialised, and after it has finished the room.\<close>

definition readyService :: BlockchainService where
  "readyService = initialize (InitOk ''0xA1'') initialService"

definition finishedService :: BlockchainService where
  "finishedService = snd (finishGame ''room'' ''0xA1'' Confirmed readyService)"

text \<open>The client of player A at the start of play.\<close>

definition playingClient :: GameClient where
  "playingClient = initialClient scenarioStart readyService"

text \<open>
  The scene of the player holding role \<open>r\<close> once \<open>updateGameState\<close> and \<open>updatePlayerInfo\<close>
  have run on state \<open>s\<close>, with no throttle or cooldown pending; and a key press in it,
  applied to the shared state.
\<close>

definition sceneFor :: "string \<Rightarrow> GameState \<Rightarrow> GameScene" where
  "sceneFor r s =
     (let sc = \<lparr> sceneState = Some s, hasUpdateCallback = True, playerRole = Some r,
                 currentPlayerAddress =
                   (case findRole r (players s) of None \<Rightarrow> None | Some (a, p) \<Rightarrow> Some (toLowerCase a)),
                 currentPlayer1Pulling = player1Pulling s,
                 currentPlayer2Pulling = player2Pulling s,
                 lastStateUpdateTime = 0, pullCooldown = 0,
                 ropeX = Some 600, cameraCenterX = 600,
                 gameTimeRemaining = GAME_DURATION, timerEvent = isStarted s, orphanTimers = 0,
                 lastWinner = None \<rparr>
      in sc\<lparr> ropeX := Some (clampRopePosition sc (ropePosition s)) \<rparr>)"

definition press :: "string \<Rightarrow> int \<Rightarrow> GameState \<Rightarrow> GameState" where
  "press r now s =
     (case snd (onSpaceDown now (sceneFor r s)) of None \<Rightarrow> s | Some u \<Rightarrow> applyUpdate u s)"

text \<open>
  \<open>n\<close> presses of the player holding role \<open>r\<close>: each press comes 100 ms after the client's
  last write (the cooldown of a press is 100 ms) and is followed, 50 ms later, by the next
  firing of the interval. The interval exists only while the loop is active.
\<close>

fun resolvedPulls :: "string \<Rightarrow> nat \<Rightarrow> GameClient \<Rightarrow> GameClient" where
  "resolvedPulls r 0 c = c"
| "resolvedPulls r (Suc n) c =
     (let c1 = resolvedPulls r n c;
          c2 = c1\<lparr> gameState := press r (lastUpdateRef c1 + 100) (gameState c1) \<rparr>
      in if loopActive (gameState c2) then resolutionTick (lastUpdateRef c2 + 150) c2 else c2)"

text \<open>
  The state while the countdown runs, before the game starts, and player A's scene in it:
  the scene has started no timer. \<open>playWithPull\<close> is a minute of play less its last second,
  in which player B's pull is resolved after 30 seconds and moves the rope to 610.
\<close>

definition scenarioCounting :: GameState where
  "scenarioCounting =
     (let s3 = handleStakeSuccess ''0xA1'' roomTwo;
          s4 = handleStakeSuccess ''0xB2'' s3;
          s5 = startButtonEffect ''0xA1'' s4
      in handleStartGame s5)"

definition lobbyScene :: GameScene where
  "lobbyScene = sceneFor ''player1'' scenarioCounting"

definition playWithPull :: "SceneEvent list" where
  "playWithPull =
     replicate 30 Second
     @ [StateChange (press ''player2'' 100 scenarioStart),
        StateChange (gameState (resolvedPulls ''player2'' 1 playingClient))]
     @ replicate 29 Second"

text \<open>The scene of player A at the start of play: the rope sprite is at the centre.\<close>

definition centredScene :: GameScene where
  "centredScene = sceneFor ''player1'' scenarioStart"

text \<open>The update that player A's key press emits at the start of play.\<close>

definition pullUpdate :: StateUpdate where
  "pullUpdate = emptyUpdate\<lparr> updPlayer1Pulling := Some True, updPlayer2Pulling := Some False \<rparr>"

text \<open>
  Player A's pull has been resolved by a write at time 150, which left the rope at 590,
  and player B has pressed the key at time 160.
\<close>

definition pendingPullClient :: GameClient where
  "pendingPullClient =
     (let c = resolvedPulls ''player1'' 1 playingClient
      in c\<lparr> gameState := press ''player2'' (lastUpdateRef c + 10) (gameState c) \<rparr>)"

text \<open>
  The state that player A's client rendered before that write: the rope is at 600 and A's
  flag is set.
\<close>

definition staleSnapshot :: GameState where
  "staleSnapshot = press ''player1'' 100 scenarioStart"

text \<open>
  The interval fires at time 190, and player A presses the key at time 210.
\<close>

definition stuckClient :: GameClient where
  "stuckClient =
     (let c = resolutionTick 190 pendingPullClient
      in c\<lparr> gameState := press ''player1'' 210 (gameState c) \<rparr>)"

text \<open>Player A has pressed the key, and player B, whose scene has seen A's flag, has
  pressed too.\<close>

definition bothPullingClient :: GameClient where
  "bothPullingClient =
     playingClient\<lparr> gameState := press ''player2'' 1020 (press ''player1'' 1010 scenarioStart) \<rparr>"

text \<open>
  Player A's scene has not yet seen player B's flag: A's key press in it, and the state in
  which B has pressed.
\<close>

definition stalePress :: "GameScene \<times> StateUpdate option" where
  "stalePress = onSpaceDown 1030 (sceneFor ''player1'' scenarioStart)"

definition playerBPressed :: GameState where
  "playerBPressed = press ''player2'' 1020 scenarioStart"

text \<open>A state in which the countdown is about to end while the rope is off centre, a
  flag is set and a winner is recorded.\<close>

definition offCentreCountdown :: GameState where
  "offCentreCountdown =
     scenarioStart\<lparr> isStarted := False, countdown := Some 1, isCountingDown := Some True,
                    ropePosition := 590, player1Pulling := True, winner := Some ''player2'' \<rparr>"

text \<open>
  The start button pressed twice before the first press has hidden it: two intervals
  count down. The first one starts the game, player A pulls once, and the second interval
  then counts from 3 again and reaches 0 during play.
\<close>

definition doubleStart :: "GameState \<times> bool" where
  "doubleStart =
     (let s3 = handleStakeSuccess ''0xA1'' roomTwo;
          s4 = handleStakeSuccess ''0xB2'' s3;
          s5 = startButtonEffect ''0xA1'' s4;
          s6 = handleStartGame (handleStartGame s5);
          a1 = fst (countdownTick s6);
          b1 = fst (countdownTick a1);
          a2 = fst (countdownTick b1);
          c = resolvedPulls ''player1'' 1 (initialClient a2 readyService);
          b2 = fst (countdownTick (gameState c));
          b3 = fst (countdownTick b2)
      in countdownTick b3)"

text \<open>Player A's client after 29 resolved pulls and a thirtieth press: the rope is at 310
  and A's flag is set. The last write was at time 4350, the press is at 4450.\<close>

definition racingClient :: GameClient where
  "racingClient =
     (let c = resolvedPulls ''player1'' 29 playingClient
      in c\<lparr> gameState := press ''player1'' (lastUpdateRef c + 100) (gameState c) \<rparr>)"

text \<open>
  A schedule of player A's client in which the interval fires twice, 50 ms apart, on the
  same value of \<open>currentStateRef\<close>, before the task started by the first firing resumes.
\<close>

definition raceSchedule :: "Event list" where
  "raceSchedule =
     [Tick 4500 (gameState racingClient), Tick 4550 (gameState racingClient), Resume, Resume]"

section \<open>Properties of the rope resolution loop\<close>

lemma handlePull_rope: "handlePull now sc = (sc', Some u) \<Longrightarrow> updRopePosition u = None"
  by (auto simp: handlePull_def Let_def emptyUpdate_def split: if_splits)

lemma onSpaceDown_rope: "onSpaceDown now sc = (sc', Some u) \<Longrightarrow> updRopePosition u = None"
  by (auto simp: onSpaceDown_def split: if_splits option.splits prod.splits dest: handlePull_rope)

lemma updateTimer_rope: "updateTimer sc = (sc', Some u) \<Longrightarrow> updRopePosition u = None"
  by (auto simp: updateTimer_def handleTimeUp_def Let_def emptyUpdate_def split: if_splits)

lemma handleWin_rope:
  "handleWin w sc = (sc', Some u) \<Longrightarrow> updRopePosition u = Some 300 \<or> updRopePosition u = Some 900"
  by (auto simp: handleWin_def Let_def emptyUpdate_def split: if_splits)

lemma updateGameState_rope:
  "updateGameState gs sc = (sc', Some u) \<Longrightarrow>
   updRopePosition u = Some 300 \<or> updRopePosition u = Some 900"
  by (auto simp: updateGameState_def Let_def split: if_splits option.splits dest: handleWin_rope)

lemma rendererEmits_rope:
  "rendererEmits u \<Longrightarrow>
   updRopePosition u = None \<or> updRopePosition u = Some 300 \<or> updRopePosition u = Some 900"
  by (induction rule: rendererEmits.induct)
     (auto dest: onSpaceDown_rope updateTimer_rope updateGameState_rope)

lemma inBounds_consts: "inBounds 600" "inBounds 300" "inBounds 900"
  by (simp_all add: inBounds_def centerX_def maxDistance_def)

lemma gameLoop_inBounds:
  "inBounds (ropePosition cur) \<Longrightarrow> inBounds (ropePosition (gameState c)) \<Longrightarrow>
   inBounds (ropePosition (gameState (gameLoop now cur c)))"
  by (auto simp: gameLoop_def pullStep_def loopState_def inBounds_def centerX_def
      maxDistance_def pullForce_def Let_def split: prod.splits)

lemma join_rope: "ropePosition (joinState (handlePlayerJoin a sg rid s)) = ropePosition s"
  by (simp add: handlePlayerJoin_def handlePlayerJoinAt_def joinUpdater_def split: option.splits)

lemma settleBody_rope: "ropePosition (gameState (settleBody t c)) = ropePosition (gameState c)"
  by (simp add: settleBody_def Let_def split: sum.splits option.splits prod.splits CallStatus.splits)

lemma step_Resume_rope: "ropePosition (gameState (step Resume c)) = ropePosition (gameState c)"
  by (simp add: settleBody_rope split: list.splits)

lemma step_Settle_rope: "ropePosition (gameState (step (Settle out) c)) = ropePosition (gameState c)"
  by (simp add: settleTx_def split: list.splits prod.splits sum.splits)

text \<open>The bounds are an invariant of every writer of the state.\<close>

lemma reachable_inBounds: "reachable c \<Longrightarrow> inBounds (ropePosition (gameState c))"
proof (induction rule: reachable.induct)
  case (r_init svc rid)
  then show ?case by (simp add: initialClient_def initialGameState_def inBounds_consts)
next
  case (r_mount c)
  then show ?case by (simp add: mountReset_def inBounds_consts)
next
  case (r_join c a sg rid)
  then show ?case by (simp add: join_rope)
next
  case (r_stake c a)
  then show ?case by (simp add: handleStakeSuccess_def Let_def)
next
  case (r_button c a)
  then show ?case by (simp add: startButtonEffect_def Let_def)
next
  case (r_start c)
  then show ?case by (simp add: handleStartGame_def)
next
  case (r_countdown c)
  then show ?case by (simp add: countdownTick_def Let_def)
next
  case (r_render c u)
  from rendererEmits_rope[OF r_render.hyps(2)] r_render.IH show ?case
    by (auto simp: applyUpdate_def inBounds_consts)
next
  case (r_tick c c0 now)
  then show ?case by (simp add: gameLoop_inBounds)
next
  case (r_resume c)
  then show ?case by (simp only: step_Resume_rope)
next
  case (r_settle c out)
  then show ?case by (simp only: step_Settle_rope)
qed

text \<open>
  C2, as stated, fails on a firing that the debounce suppresses: player B's flag alone is
  set, the client's last write (at time 150) is 40 ms old, and the rope stays at 590. It
  fails as well on a firing that the debounce lets through, when \<open>currentStateRef\<close> still
  holds the state rendered before the last write: at time 200 the callback computes 590
  from the snapshot (rope 600, player A's flag set), and the write leaves the rope at 590
  and clears player B's flag, whose pull is lost.
\<close>

theorem debounced_tick_counterexample:
  "player2Pulling (gameState pendingPullClient) \<and> \<not> player1Pulling (gameState pendingPullClient)
   \<and> ropePosition (gameState pendingPullClient) = 590
   \<and> lastUpdateRef pendingPullClient = 150
   \<and> ropePosition (gameState (resolutionTick 190 pendingPullClient)) = 590
   \<and> ropePosition staleSnapshot = 600
   \<and> player1Pulling staleSnapshot \<and> \<not> player2Pulling staleSnapshot
   \<and> ropePosition (gameState (gameLoop 200 staleSnapshot pendingPullClient)) = 590
   \<and> \<not> player2Pulling (gameState (gameLoop 200 staleSnapshot pendingPullClient))"
  by code_simp

text \<open>
  C2 (amended). A resolution tick reads the snapshot \<open>cur\<close> that \<open>currentStateRef\<close> holds,
  whose rope position is within the bounds. If the client's last write is less than 50 ms
  old, the tick changes nothing. Otherwise: if exactly one of \<open>player1Pulling\<close>,
  \<open>player2Pulling\<close> is true in the snapshot, the rope position becomes the snapshot's
  position moved by \<open>PULL_FORCE = 10\<close> toward the pulling player's side, clamped to
  \<open>[250, 950]\<close>; if both or neither are true in the snapshot, the rope position of the
  latest state is unchanged, unless the snapshot's position is at or beyond a win
  threshold, in which case the snapshot's position is written. Hence, when the snapshot is
  the latest state and the tick is not debounced, the rope moves by 10 toward the side of
  the one player pulling, clamped, and is unchanged when both or neither pull.
\<close>

theorem resolution_tick_moves_rope:
  assumes "inBounds (ropePosition cur)"
  shows "(now - lastUpdateRef c < 50 \<longrightarrow> gameLoop now cur c = c)
       \<and> (\<not> now - lastUpdateRef c < 50 \<longrightarrow>
            ropePosition (gameState (gameLoop now cur c)) =
              (if player1Pulling cur \<and> \<not> player2Pulling cur
                 then max 250 (min 950 (ropePosition cur - 10))
               else if \<not> player1Pulling cur \<and> player2Pulling cur
                 then max 250 (min 950 (ropePosition cur + 10))
               else if winCheck (ropePosition cur) \<noteq> None then ropePosition cur
               else ropePosition (gameState c)))
       \<and> (\<not> now - lastUpdateRef c < 50 \<and> cur = gameState c \<longrightarrow>
            ropePosition (gameState (resolutionTick now c)) =
              (if player1Pulling (gameState c) \<and> \<not> player2Pulling (gameState c)
                 then max 250 (min 950 (ropePosition (gameState c) - 10))
               else if \<not> player1Pulling (gameState c) \<and> player2Pulling (gameState c)
                 then max 250 (min 950 (ropePosition (gameState c) + 10))
               else ropePosition (gameState c)))"
proof -
  have debounced: "now - lastUpdateRef c < 50 \<longrightarrow> gameLoop now cur c = c"
    by (simp add: gameLoop_def Let_def split: prod.splits)
  have written: "\<not> now - lastUpdateRef c < 50 \<longrightarrow>
            ropePosition (gameState (gameLoop now cur c)) =
              (if player1Pulling cur \<and> \<not> player2Pulling cur
                 then max 250 (min 950 (ropePosition cur - 10))
               else if \<not> player1Pulling cur \<and> player2Pulling cur
                 then max 250 (min 950 (ropePosition cur + 10))
               else if winCheck (ropePosition cur) \<noteq> None then ropePosition cur
               else ropePosition (gameState c))"
    using assms
    by (auto simp: gameLoop_def pullStep_def loopState_def inBounds_def centerX_def
        maxDistance_def pullForce_def winCheck_def truthyStr_def Let_def split: prod.splits)
  have fresh: "\<not> now - lastUpdateRef c < 50 \<and> cur = gameState c \<longrightarrow>
            ropePosition (gameState (resolutionTick now c)) =
              (if player1Pulling (gameState c) \<and> \<not> player2Pulling (gameState c)
                 then max 250 (min 950 (ropePosition (gameState c) - 10))
               else if \<not> player1Pulling (gameState c) \<and> player2Pulling (gameState c)
                 then max 250 (min 950 (ropePosition (gameState c) + 10))
               else ropePosition (gameState c))"
    using written by (auto simp: resolutionTick_def)
  from debounced written fresh show ?thesis by blast
qed

theorem resolution_tick_moves_rope_witness:
  "inBounds (ropePosition (gameState pendingPullClient))
   \<and> 190 - lastUpdateRef pendingPullClient < 50
   \<and> gameLoop 190 (gameState pendingPullClient) pendingPullClient = pendingPullClient
   \<and> \<not> 200 - lastUpdateRef pendingPullClient < 50
   \<and> ropePosition (gameState (resolutionTick 200 pendingPullClient)) = 600
   \<and> inBounds (ropePosition staleSnapshot)
   \<and> ropePosition (gameState (gameLoop 200 staleSnapshot pendingPullClient)) = 590"
proof -
  have b: "inBounds (ropePosition (gameState pendingPullClient))" by code_simp
  have b': "inBounds (ropePosition staleSnapshot)" by code_simp
  have e: "190 - lastUpdateRef pendingPullClient < 50" by code_simp
  have d: "\<not> 200 - lastUpdateRef pendingPullClient < 50" by code_simp
  have f: "\<not> player1Pulling (gameState pendingPullClient) \<and> player2Pulling (gameState pendingPullClient)"
    by code_simp
  have p: "ropePosition (gameState pendingPullClient) = 590" by code_simp
  have f': "player1Pulling staleSnapshot \<and> \<not> player2Pulling staleSnapshot" by code_simp
  have p': "ropePosition staleSnapshot = 600" by code_simp
  from resolution_tick_moves_rope[OF b, of 190 pendingPullClient] e
  have 1: "gameLoop 190 (gameState pendingPullClient) pendingPullClient = pendingPullClient"
    by blast
  from resolution_tick_moves_rope[OF b, of 200 pendingPullClient] d f p
  have 2: "ropePosition (gameState (resolutionTick 200 pendingPullClient)) = 600" by simp
  from resolution_tick_moves_rope[OF b', of 200 pendingPullClient] d f' p'
  have 3: "ropePosition (gameState (gameLoop 200 staleSnapshot pendingPullClient)) = 590" by simp
  from b e 1 d 2 b' 3 show ?thesis by blast
qed

text \<open>The scenario's clients are reachable.\<close>

lemma centredScene_emits: "rendererEmits pullUpdate"
proof -
  have "snd (onSpaceDown 1010 centredScene) = Some pullUpdate" by code_simp
  then have "onSpaceDown 1010 centredScene = (fst (onSpaceDown 1010 centredScene), Some pullUpdate)"
    by (simp add: prod_eq_iff)
  then show ?thesis by (rule re_key)
qed

lemma initialClient_gameState:
  "(initialClient s svc)\<lparr> gameState := g \<rparr> = initialClient g svc"
  "gameState (initialClient s svc) = s"
  by (simp_all add: initialClient_def)

lemma runCountdown_three:
  "fst (runCountdown 3 (handleStartGame s)) =
   fst (countdownTick (fst (countdownTick (fst (countdownTick (handleStartGame s))))))"
  by (simp add: handleStartGame_def countdownTick_def eval_nat_numeral)

lemma reachable_playingClient: "reachable playingClient"
proof -
  let ?svc = "readyService"
  have svc: "serviceReachable ?svc" unfolding readyService_def by (intro sr_initialize sr_initial)
  let ?s0 = "initialGameState (Some ''room'')"
  let ?s1 = "joinState (handlePlayerJoin (Some ''0xA1'') True (Some ''room'') ?s0)"
  let ?s2 = "joinState (handlePlayerJoin (Some ''0xB2'') True (Some ''room'') ?s1)"
  let ?s3 = "handleStakeSuccess ''0xA1'' ?s2"
  let ?s4 = "handleStakeSuccess ''0xB2'' ?s3"
  let ?s5 = "startButtonEffect ''0xA1'' ?s4"
  let ?s6 = "handleStartGame ?s5"
  let ?t1 = "fst (countdownTick ?s6)"
  let ?t2 = "fst (countdownTick ?t1)"
  let ?t3 = "fst (countdownTick ?t2)"
  have "reachable (initialClient ?s0 ?svc)" using svc by (rule r_init)
  from r_join[OF this, of "Some ''0xA1''" True "Some ''room''"]
  have "reachable (initialClient ?s1 ?svc)" by (simp only: initialClient_gameState)
  from r_join[OF this, of "Some ''0xB2''" True "Some ''room''"]
  have "reachable (initialClient ?s2 ?svc)" by (simp only: initialClient_gameState)
  from r_stake[OF this, of "''0xA1''"]
  have "reachable (initialClient ?s3 ?svc)" by (simp only: initialClient_gameState)
  from r_stake[OF this, of "''0xB2''"]
  have "reachable (initialClient ?s4 ?svc)" by (simp only: initialClient_gameState)
  from r_button[OF this, of "''0xA1''"]
  have "reachable (initialClient ?s5 ?svc)" by (simp only: initialClient_gameState)
  from r_start[OF this]
  have "reachable (initialClient ?s6 ?svc)" by (simp only: initialClient_gameState)
  from r_countdown[OF this]
  have "reachable (initialClient ?t1 ?svc)" by (simp only: initialClient_gameState)
  from r_countdown[OF this]
  have "reachable (initialClient ?t2 ?svc)" by (simp only: initialClient_gameState)
  from r_countdown[OF this]
  have "reachable (initialClient ?t3 ?svc)" by (simp only: initialClient_gameState)
  moreover have "scenarioStart = ?t3"
    unfolding scenarioStart_def roomTwo_def roomOne_def roomEmpty_def Let_def
    by (rule runCountdown_three)
  ultimately show ?thesis by (simp only: playingClient_def)
qed

lemma reachable_pulled:
  "reachable (playingClient\<lparr> gameState := applyUpdate pullUpdate (gameState playingClient) \<rparr>)"
  by (intro r_render reachable_playingClient centredScene_emits)

text \<open>
  C3. For every reachable state, after every resolution tick
  \<open>CENTER - MAX_DISTANCE \<le> ropePosition \<le> CENTER + MAX_DISTANCE\<close> holds, that is
  \<open>250 \<le> ropePosition \<le> 950\<close> with \<open>CENTER = 600\<close> and \<open>MAX_DISTANCE = 350\<close>.
\<close>

theorem rope_stays_in_bounds:
  assumes "reachable c"
  shows "centerX - maxDistance \<le> ropePosition (gameState (resolutionTick now c))
       \<and> ropePosition (gameState (resolutionTick now c)) \<le> centerX + maxDistance
       \<and> centerX - maxDistance = 250 \<and> centerX + maxDistance = 950"
proof -
  have "inBounds (ropePosition (gameState c))" using assms by (rule reachable_inBounds)
  then have "inBounds (ropePosition (gameState (resolutionTick now c)))"
    by (simp add: resolutionTick_def gameLoop_inBounds)
  then show ?thesis by (simp add: inBounds_def centerX_def maxDistance_def)
qed

theorem rope_stays_in_bounds_witness:
  "reachable (playingClient\<lparr> gameState := applyUpdate pullUpdate (gameState playingClient) \<rparr>)
   \<and> ropePosition (gameState (resolutionTick 1000
         (playingClient\<lparr> gameState := applyUpdate pullUpdate (gameState playingClient) \<rparr>))) = 590
   \<and> (250::rat) \<le> 590 \<and> (590::rat) \<le> 950"
proof -
  have e: "ropePosition (gameState (resolutionTick 1000
         (playingClient\<lparr> gameState := applyUpdate pullUpdate (gameState playingClient) \<rparr>))) = 590"
    by code_simp
  from rope_stays_in_bounds[OF reachable_pulled, of 1000] reachable_pulled e
  show ?thesis by (simp add: centerX_def maxDistance_def)
qed

text \<open>
  C4, as stated, fails on two kinds of firing. One that the debounce suppresses leaves
  player B's flag set. One that finds both flags set, away from the win thresholds, is not
  due to write at all and leaves both flags set.
\<close>

theorem flags_not_cleared_counterexample:
  "player2Pulling (gameState (resolutionTick 190 pendingPullClient))
   \<and> player1Pulling (gameState (resolutionTick 2000 bothPullingClient))
   \<and> player2Pulling (gameState (resolutionTick 2000 bothPullingClient))"
  by code_simp

text \<open>
  C4 (amended). After every resolution tick that writes, both pulling flags are false. A
  tick writes when the client's last write is at least 50 ms old and, in the snapshot
  \<open>cur\<close> that \<open>currentStateRef\<close> holds, either exactly one pulling flag is set or the rope
  is at or beyond a win threshold. A tick less than 50 ms after the client's last write
  writes nothing: the state, its flags included, is as it was. A tick on a state in which
  neither flag is set leaves both false.
\<close>

theorem writing_tick_clears_flags:
  "(\<not> now - lastUpdateRef c < 50
      \<and> (player1Pulling cur \<noteq> player2Pulling cur \<or> winCheck (ropePosition cur) \<noteq> None) \<longrightarrow>
      \<not> player1Pulling (gameState (gameLoop now cur c))
      \<and> \<not> player2Pulling (gameState (gameLoop now cur c)))
   \<and> (now - lastUpdateRef c < 50 \<longrightarrow> gameLoop now cur c = c)
   \<and> (\<not> player1Pulling (gameState c) \<and> \<not> player2Pulling (gameState c) \<longrightarrow>
        \<not> player1Pulling (gameState (gameLoop now cur c))
        \<and> \<not> player2Pulling (gameState (gameLoop now cur c)))"
proof -
  have writes: "\<not> now - lastUpdateRef c < 50
      \<and> (player1Pulling cur \<noteq> player2Pulling cur \<or> winCheck (ropePosition cur) \<noteq> None) \<longrightarrow>
      \<not> player1Pulling (gameState (gameLoop now cur c))
      \<and> \<not> player2Pulling (gameState (gameLoop now cur c))"
    by (auto simp: gameLoop_def pullStep_def loopState_def Let_def winCheck_def truthyStr_def
        split: prod.splits if_splits)
  have debounced: "now - lastUpdateRef c < 50 \<longrightarrow> gameLoop now cur c = c"
    by (simp add: gameLoop_def Let_def split: prod.splits)
  have unset: "\<not> player1Pulling (gameState c) \<and> \<not> player2Pulling (gameState c) \<longrightarrow>
        \<not> player1Pulling (gameState (gameLoop now cur c))
        \<and> \<not> player2Pulling (gameState (gameLoop now cur c))"
    by (simp add: gameLoop_def loopState_def Let_def split: prod.splits)
  from writes debounced unset show ?thesis by blast
qed

theorem writing_tick_clears_flags_witness:
  "\<not> 200 - lastUpdateRef pendingPullClient < 50
   \<and> player1Pulling (gameState pendingPullClient) \<noteq> player2Pulling (gameState pendingPullClient)
   \<and> \<not> player1Pulling (gameState (resolutionTick 200 pendingPullClient))
   \<and> \<not> player2Pulling (gameState (resolutionTick 200 pendingPullClient))
   \<and> player1Pulling staleSnapshot \<noteq> player2Pulling staleSnapshot
   \<and> \<not> player2Pulling (gameState (gameLoop 200 staleSnapshot pendingPullClient))
   \<and> 190 - lastUpdateRef pendingPullClient < 50
   \<and> gameLoop 190 staleSnapshot pendingPullClient = pendingPullClient
   \<and> \<not> player1Pulling (gameState playingClient) \<and> \<not> player2Pulling (gameState playingClient)
   \<and> \<not> player1Pulling (gameState (gameLoop 2000 staleSnapshot playingClient))"
proof -
  have d: "\<not> 200 - lastUpdateRef pendingPullClient < 50" by code_simp
  have e: "190 - lastUpdateRef pendingPullClient < 50" by code_simp
  have f: "player1Pulling (gameState pendingPullClient) \<noteq> player2Pulling (gameState pendingPullClient)"
    by code_simp
  have f': "player1Pulling staleSnapshot \<noteq> player2Pulling staleSnapshot" by code_simp
  have n: "\<not> player1Pulling (gameState playingClient) \<and> \<not> player2Pulling (gameState playingClient)"
    by code_simp
  from writing_tick_clears_flags[of 200 pendingPullClient "gameState pendingPullClient"] d f
  have 1: "\<not> player1Pulling (gameState (resolutionTick 200 pendingPullClient))
           \<and> \<not> player2Pulling (gameState (resolutionTick 200 pendingPullClient))"
    by (simp add: resolutionTick_def)
  from writing_tick_clears_flags[of 200 pendingPullClient staleSnapshot] d f'
  have 2: "\<not> player2Pulling (gameState (gameLoop 200 staleSnapshot pendingPullClient))"
    by blast
  from writing_tick_clears_flags[of 190 pendingPullClient staleSnapshot] e
  have 3: "gameLoop 190 staleSnapshot pendingPullClient = pendingPullClient" by blast
  from writing_tick_clears_flags[of 2000 playingClient staleSnapshot] n
  have 4: "\<not> player1Pulling (gameState (gameLoop 2000 staleSnapshot playingClient))" by blast
  from d f 1 f' 2 e 3 n 4 show ?thesis by blast
qed

text \<open>With both flags set and the rope away from the thresholds, no firing of the
  interval ever changes the client: the flags stay set.\<close>

lemma both_flags_stuck:
  "player1Pulling (gameState c) \<Longrightarrow> player2Pulling (gameState c) \<Longrightarrow>
   winCheck (ropePosition (gameState c)) = None \<Longrightarrow> resolutionTick now c = c"
  by (auto simp: resolutionTick_def gameLoop_def pullStep_def Let_def truthyStr_def
      split: prod.splits if_splits)

text \<open>
  A flag that a debounced firing leaves set need not be cleared later. After the firing
  at time 190 has left player B's flag set, player A presses at time 210, in a scene that
  has seen B's flag: both flags are set, and every later firing leaves the client as it is.
\<close>

lemma surviving_flag_sticks:
  "player1Pulling (gameState stuckClient) \<and> player2Pulling (gameState stuckClient)
   \<and> resolutionTick now stuckClient = stuckClient"
proof -
  have f: "player1Pulling (gameState stuckClient) \<and> player2Pulling (gameState stuckClient)
           \<and> winCheck (ropePosition (gameState stuckClient)) = None"
    by code_simp
  then show ?thesis by (simp add: both_flags_stuck)
qed

text \<open>
  C9, as stated, fails: after 30 resolved pulls from 600 the rope is at 300, which is not
  above the boundary 302.5, and the winner is already \<open>player1\<close>.
\<close>

theorem thirty_pulls_counterexample:
  "ropePosition (gameState (resolvedPulls ''player1'' 30 playingClient)) = 300
   \<and> winner (gameState (resolvedPulls ''player1'' 30 playingClient)) = Some ''player1''"
  by code_simp

text \<open>
  C9 (amended). Starting from \<open>ropePosition = 600\<close> with only player1 pulling, after 29
  resolved pulls the rope position is 310 and no winner is declared (the player1 win
  boundary is \<open>600 - 297.5 = 302.5\<close>); the thirtieth pull moves the position to 300, at
  which \<open>winner = player1\<close> is declared and the game is stopped; a further press changes
  nothing, so the position never becomes 290.
\<close>

theorem thirtieth_pull_wins:
  "ropePosition (gameState playingClient) = 600
   \<and> ropePosition (gameState (resolvedPulls ''player1'' 29 playingClient)) = 310
   \<and> winner (gameState (resolvedPulls ''player1'' 29 playingClient)) = None
   \<and> loopActive (gameState (resolvedPulls ''player1'' 29 playingClient))
   \<and> ropePosition (gameState (resolvedPulls ''player1'' 30 playingClient)) = 300
   \<and> winner (gameState (resolvedPulls ''player1'' 30 playingClient)) = Some ''player1''
   \<and> \<not> isStarted (gameState (resolvedPulls ''player1'' 30 playingClient))
   \<and> gameState (resolvedPulls ''player1'' 31 playingClient)
       = gameState (resolvedPulls ''player1'' 30 playingClient)
   \<and> centerX - winDistance = 605 / 2"
  by code_simp

section \<open>Properties of the match state machine\<close>

text \<open>
  C7, as stated, fails: the updater that ends the countdown returns \<open>prevState\<close> with
  \<open>isStarted\<close>, \<open>isCountingDown\<close> and \<open>countdown\<close> replaced and nothing else. From a state
  whose rope is at 590, whose \<open>player1Pulling\<close> is set and whose winner is \<open>player2\<close>, the
  transition leaves all three as they are.
\<close>

theorem countdown_end_counterexample:
  "countdown offCentreCountdown = Some 1
   \<and> snd (countdownTick offCentreCountdown)
   \<and> isStarted (fst (countdownTick offCentreCountdown))
   \<and> ropePosition (fst (countdownTick offCentreCountdown)) = 590
   \<and> player1Pulling (fst (countdownTick offCentreCountdown))
   \<and> winner (fst (countdownTick offCentreCountdown)) = Some ''player2''"
  by code_simp

text \<open>
  Such a transition happens when the start button is pressed twice: the second interval
  reaches 0 during play, with the rope at 590.
\<close>

lemma double_start_keeps_rope:
  "snd doubleStart \<and> isStarted (fst doubleStart) \<and> countdown (fst doubleStart) = None
   \<and> ropePosition (fst doubleStart) = 590"
  by code_simp

text \<open>
  C7 (amended). The start action sets \<open>countdown = 3\<close>, \<open>isCountingDown = true\<close>,
  \<open>isStarted = false\<close> (and hides the start button); a 1-second ticker decrements
  \<open>countdown\<close> to 2 and to 1; the third tick reaches 0, stops the ticker, clears \<open>countdown\<close>
  and sets \<open>isCountingDown = false\<close> and \<open>isStarted = true\<close>. The transition writes no other
  field: \<open>ropePosition\<close>, both pulling flags and \<open>winner\<close> keep the values they had before
  the start action.
\<close>

theorem start_and_countdown:
  "handleStartGame s =
     s\<lparr> showStartButton := Some False, isStarted := False, countdown := Some 3,
        isCountingDown := Some True \<rparr>
   \<and> runCountdown 1 (handleStartGame s) = ((handleStartGame s)\<lparr> countdown := Some 2 \<rparr>, False)
   \<and> runCountdown 2 (handleStartGame s) = ((handleStartGame s)\<lparr> countdown := Some 1 \<rparr>, False)
   \<and> runCountdown 3 (handleStartGame s) =
        (s\<lparr> showStartButton := Some False, isStarted := True, countdown := None,
            isCountingDown := Some False \<rparr>, True)
   \<and> ropePosition (fst (runCountdown 3 (handleStartGame s))) = ropePosition s
   \<and> player1Pulling (fst (runCountdown 3 (handleStartGame s))) = player1Pulling s
   \<and> player2Pulling (fst (runCountdown 3 (handleStartGame s))) = player2Pulling s
   \<and> winner (fst (runCountdown 3 (handleStartGame s))) = winner s"
  by (simp add: handleStartGame_def countdownTick_def eval_nat_numeral)

text \<open>Joining: an address that no key matches is a new key.\<close>

lemma findAddress_None_key: "findAddress a ps = None \<Longrightarrow> a \<notin> fst ` set ps"
  by (induction ps) (auto simp: findAddress_def split: if_splits)

lemma setKey_fresh: "a \<notin> fst ` set ps \<Longrightarrow> setKey a v ps = ps @ [(a, v)]"
  by (induction ps) auto

text \<open>
  C6, as stated, fails when the state that the joining client has rendered is not the
  latest state: the handler reads the rendered state and writes over the latest one.
  Player B's client still shows the empty room while the room holds player A: B is
  assigned \<open>player1\<close> as well. A third participant's client still shows one player while
  the room holds two: the join is not rejected, and the room has three players.
\<close>

theorem stale_join_counterexample:
  "players roomEmpty = []
   \<and> players roomOne = [(''0xA1'', \<lparr> role = ''player1'', isReady = False \<rparr>)]
   \<and> joinOutcome (handlePlayerJoinAt (Some ''0xB2'') True (Some ''room'') roomEmpty roomOne)
       = JoinedAs ''player1''
   \<and> players (joinState (handlePlayerJoinAt (Some ''0xB2'') True (Some ''room'') roomEmpty roomOne))
       = [(''0xA1'', \<lparr> role = ''player1'', isReady = False \<rparr>),
          (''0xB2'', \<lparr> role = ''player1'', isReady = False \<rparr>)]
   \<and> players roomTwo = [(''0xA1'', \<lparr> role = ''player1'', isReady = False \<rparr>),
                        (''0xB2'', \<lparr> role = ''player2'', isReady = False \<rparr>)]
   \<and> joinOutcome (handlePlayerJoinAt (Some ''0xC3'') True (Some ''room'') roomOne roomTwo)
       = JoinedAs ''player2''
   \<and> joinError (handlePlayerJoinAt (Some ''0xC3'') True (Some ''room'') roomOne roomTwo) = None
   \<and> players (joinState (handlePlayerJoinAt (Some ''0xC3'') True (Some ''room'') roomOne roomTwo))
       = [(''0xA1'', \<lparr> role = ''player1'', isReady = False \<rparr>),
          (''0xB2'', \<lparr> role = ''player2'', isReady = False \<rparr>),
          (''0xC3'', \<lparr> role = ''player2'', isReady = False \<rparr>)]"
  by code_simp

text \<open>
  C6 (amended). A connected participant with address \<open>a\<close> asks to join; \<open>snap\<close> is the
  state that the participant's client has rendered and \<open>prev\<close> the latest state. The
  request is decided on \<open>snap\<close> and written over \<open>prev\<close>. If \<open>snap\<close> has zero players, \<open>a\<close>
  is added to the players of \<open>prev\<close> with role \<open>player1\<close>. If \<open>snap\<close> has exactly one player,
  who holds \<open>player1\<close> and has another address, \<open>a\<close> is added with role \<open>player2\<close>. If in
  \<open>snap\<close> both roles are taken and \<open>a\<close> is not present, the join is rejected with the error
  "Room is full", the redirect is scheduled and the handler leaves the state as it is. If
  \<open>a\<close> is present in \<open>snap\<close> (compared without regard to case), the handler does nothing.
  When the rendered state is the latest state \<open>s\<close>: a room of zero players gets \<open>a\<close> as
  \<open>player1\<close> and has that one player; a room whose one player holds \<open>player1\<close> gets \<open>a\<close> as
  \<open>player2\<close>; a full room rejects \<open>a\<close> and is not changed; and for \<open>a\<close> already present the
  state after the handler is the state before. The state \<open>s\<close> is arbitrary, so this holds
  after every sequence of join requests each of which is rendered before the next is made.
\<close>

theorem join_roles:
  assumes "a \<noteq> []"
  shows "(players snap = [] \<longrightarrow>
            joinOutcome (handlePlayerJoinAt (Some a) True rid snap prev) = JoinedAs ''player1''
          \<and> players (joinState (handlePlayerJoinAt (Some a) True rid snap prev))
              = setKey a \<lparr> role = ''player1'', isReady = False \<rparr> (players prev))
       \<and> (players snap = [(a1, p1)] \<and> role p1 = ''player1'' \<and> toLowerCase a1 \<noteq> toLowerCase a \<longrightarrow>
            joinOutcome (handlePlayerJoinAt (Some a) True rid snap prev) = JoinedAs ''player2''
          \<and> players (joinState (handlePlayerJoinAt (Some a) True rid snap prev))
              = setKey a \<lparr> role = ''player2'', isReady = False \<rparr> (players prev))
       \<and> (findAddress a (players snap) = None \<and> findRole ''player1'' (players snap) \<noteq> None
            \<and> findRole ''player2'' (players snap) \<noteq> None \<longrightarrow>
            handlePlayerJoinAt (Some a) True rid snap prev =
              \<lparr> joinState = prev, joinOutcome = RoomFull, joinError = Some ''Room is full'',
                joinRedirect = True \<rparr>)
       \<and> (findAddress a (players snap) \<noteq> None \<longrightarrow>
            handlePlayerJoinAt (Some a) True rid snap prev =
              \<lparr> joinState = prev, joinOutcome = AlreadyInGame, joinError = None,
                joinRedirect = False \<rparr>)
       \<and> (players s = [] \<longrightarrow>
            joinOutcome (handlePlayerJoin (Some a) True rid s) = JoinedAs ''player1''
          \<and> players (joinState (handlePlayerJoin (Some a) True rid s))
              = [(a, \<lparr> role = ''player1'', isReady = False \<rparr>)])
       \<and> (players s = [(a1, p1)] \<and> role p1 = ''player1'' \<and> toLowerCase a1 \<noteq> toLowerCase a \<longrightarrow>
            joinOutcome (handlePlayerJoin (Some a) True rid s) = JoinedAs ''player2''
          \<and> players (joinState (handlePlayerJoin (Some a) True rid s))
              = [(a1, p1), (a, \<lparr> role = ''player2'', isReady = False \<rparr>)])
       \<and> (findAddress a (players s) = None \<and> findRole ''player1'' (players s) \<noteq> None
            \<and> findRole ''player2'' (players s) \<noteq> None \<longrightarrow>
            handlePlayerJoin (Some a) True rid s =
              \<lparr> joinState = s, joinOutcome = RoomFull, joinError = Some ''Room is full'',
                joinRedirect = True \<rparr>)
       \<and> (findAddress a (players s) \<noteq> None \<longrightarrow>
            handlePlayerJoin (Some a) True rid s =
              \<lparr> joinState = s, joinOutcome = AlreadyInGame, joinError = None,
                joinRedirect = False \<rparr>)"
proof -
  have empty: "players snap = [] \<longrightarrow>
            joinOutcome (handlePlayerJoinAt (Some a) True rid snap prev) = JoinedAs ''player1''
          \<and> players (joinState (handlePlayerJoinAt (Some a) True rid snap prev))
              = setKey a \<lparr> role = ''player1'', isReady = False \<rparr> (players prev)" for snap prev
    using assms by (simp add: handlePlayerJoinAt_def findAddress_def joinUpdater_def)
  have one: "players snap = [(a1, p1)] \<and> role p1 = ''player1'' \<and> toLowerCase a1 \<noteq> toLowerCase a \<longrightarrow>
            joinOutcome (handlePlayerJoinAt (Some a) True rid snap prev) = JoinedAs ''player2''
          \<and> players (joinState (handlePlayerJoinAt (Some a) True rid snap prev))
              = setKey a \<lparr> role = ''player2'', isReady = False \<rparr> (players prev)" for snap prev
    using assms by (auto simp: handlePlayerJoinAt_def findAddress_def joinUpdater_def)
  have full: "findAddress a (players snap) = None \<and> findRole ''player1'' (players snap) \<noteq> None
            \<and> findRole ''player2'' (players snap) \<noteq> None \<longrightarrow>
            handlePlayerJoinAt (Some a) True rid snap prev =
              \<lparr> joinState = prev, joinOutcome = RoomFull, joinError = Some ''Room is full'',
                joinRedirect = True \<rparr>" for snap prev
  proof
    assume h: "findAddress a (players snap) = None \<and> findRole ''player1'' (players snap) \<noteq> None
            \<and> findRole ''player2'' (players snap) \<noteq> None"
    then have ne: "players snap \<noteq> []" by (auto simp: findRole_def)
    from h have "list_ex (\<lambda>(addr, p). role p = ''player2'') (players snap)"
      by (auto simp: findRole_def find_None_iff list_ex_iff)
    with h ne show "handlePlayerJoinAt (Some a) True rid snap prev =
              \<lparr> joinState = prev, joinOutcome = RoomFull, joinError = Some ''Room is full'',
                joinRedirect = True \<rparr>"
      using assms by (simp add: handlePlayerJoinAt_def)
  qed
  have present: "findAddress a (players snap) \<noteq> None \<longrightarrow>
            handlePlayerJoinAt (Some a) True rid snap prev =
              \<lparr> joinState = prev, joinOutcome = AlreadyInGame, joinError = None,
                joinRedirect = False \<rparr>" for snap prev
    using assms by (simp add: handlePlayerJoinAt_def)
  have empty': "players s = [] \<longrightarrow>
            joinOutcome (handlePlayerJoin (Some a) True rid s) = JoinedAs ''player1''
          \<and> players (joinState (handlePlayerJoin (Some a) True rid s))
              = [(a, \<lparr> role = ''player1'', isReady = False \<rparr>)]"
    using empty[of s s] by (auto simp: handlePlayerJoin_def)
  have one': "players s = [(a1, p1)] \<and> role p1 = ''player1'' \<and> toLowerCase a1 \<noteq> toLowerCase a \<longrightarrow>
            joinOutcome (handlePlayerJoin (Some a) True rid s) = JoinedAs ''player2''
          \<and> players (joinState (handlePlayerJoin (Some a) True rid s))
              = [(a1, p1), (a, \<lparr> role = ''player2'', isReady = False \<rparr>)]"
    using one[of s s] by (auto simp: handlePlayerJoin_def)
  have full': "findAddress a (players s) = None \<and> findRole ''player1'' (players s) \<noteq> None
            \<and> findRole ''player2'' (players s) \<noteq> None \<longrightarrow>
            handlePlayerJoin (Some a) True rid s =
              \<lparr> joinState = s, joinOutcome = RoomFull, joinError = Some ''Room is full'',
                joinRedirect = True \<rparr>"
    using full[of s s] by (simp add: handlePlayerJoin_def)
  have present': "findAddress a (players s) \<noteq> None \<longrightarrow>
            handlePlayerJoin (Some a) True rid s =
              \<lparr> joinState = s, joinOutcome = AlreadyInGame, joinError = None,
                joinRedirect = False \<rparr>"
    using present[of s s] by (simp add: handlePlayerJoin_def)
  from empty[of snap prev] one[of snap prev] full[of snap prev] present[of snap prev]
    empty' one' full' present'
  show ?thesis by blast
qed

theorem join_roles_witness:
  "players roomEmpty = []
   \<and> players (joinState (handlePlayerJoin (Some ''0xA1'') True (Some ''room'') roomEmpty))
       = [(''0xA1'', \<lparr> role = ''player1'', isReady = False \<rparr>)]
   \<and> players roomOne = [(''0xA1'', \<lparr> role = ''player1'', isReady = False \<rparr>)]
   \<and> players (joinState (handlePlayerJoin (Some ''0xB2'') True (Some ''room'') roomOne))
       = [(''0xA1'', \<lparr> role = ''player1'', isReady = False \<rparr>),
          (''0xB2'', \<lparr> role = ''player2'', isReady = False \<rparr>)]
   \<and> handlePlayerJoin (Some ''0xC3'') True (Some ''room'') roomTwo
       = \<lparr> joinState = roomTwo, joinOutcome = RoomFull, joinError = Some ''Room is full'',
           joinRedirect = True \<rparr>
   \<and> handlePlayerJoin (Some ''0xa1'') True (Some ''room'') roomTwo
       = \<lparr> joinState = roomTwo, joinOutcome = AlreadyInGame, joinError = None,
           joinRedirect = False \<rparr>
   \<and> joinOutcome (handlePlayerJoinAt (Some ''0xB2'') True (Some ''room'') roomEmpty roomOne)
       = JoinedAs ''player1''
   \<and> handlePlayerJoinAt (Some ''0xC3'') True (Some ''room'') roomTwo roomOne
       = \<lparr> joinState = roomOne, joinOutcome = RoomFull, joinError = Some ''Room is full'',
           joinRedirect = True \<rparr>"
proof -
  have e: "players roomEmpty = []" by code_simp
  have o: "players roomOne = [(''0xA1'', \<lparr> role = ''player1'', isReady = False \<rparr>)]"
    by code_simp
  have o': "players roomOne = [(''0xA1'', \<lparr> role = ''player1'', isReady = False \<rparr>)]
            \<and> role \<lparr> role = ''player1'', isReady = False \<rparr> = ''player1''
            \<and> toLowerCase ''0xA1'' \<noteq> toLowerCase ''0xB2''"
    using o by (simp add: toLowerCase_def lowerChar_def)
  have f: "findAddress ''0xC3'' (players roomTwo) = None
           \<and> findRole ''player1'' (players roomTwo) \<noteq> None
           \<and> findRole ''player2'' (players roomTwo) \<noteq> None"
    by code_simp
  have r: "findAddress ''0xa1'' (players roomTwo) \<noteq> None" by code_simp
  have n: "''0xA1'' \<noteq> []" "''0xB2'' \<noteq> []" "''0xC3'' \<noteq> []" "''0xa1'' \<noteq> []" by simp_all
  note j1 = join_roles[OF n(1), where s = roomEmpty and rid = "Some ''room''"]
  note j2 = join_roles[OF n(2), where s = roomOne and rid = "Some ''room''"
      and ?a1.0 = "''0xA1''" and ?p1.0 = "\<lparr> role = ''player1'', isReady = False \<rparr>"]
  note j3 = join_roles[OF n(3), where s = roomTwo and rid = "Some ''room''"
      and snap = roomTwo and prev = roomOne]
  note j4 = join_roles[OF n(4), where s = roomTwo and rid = "Some ''room''"]
  note j5 = join_roles[OF n(2), where snap = roomEmpty and prev = roomOne and rid = "Some ''room''"]
  from j1 e have c1: "players (joinState (handlePlayerJoin (Some ''0xA1'') True (Some ''room'') roomEmpty))
       = [(''0xA1'', \<lparr> role = ''player1'', isReady = False \<rparr>)]" by blast
  from j2 o' have c2: "players (joinState (handlePlayerJoin (Some ''0xB2'') True (Some ''room'') roomOne))
       = [(''0xA1'', \<lparr> role = ''player1'', isReady = False \<rparr>),
          (''0xB2'', \<lparr> role = ''player2'', isReady = False \<rparr>)]" by blast
  from j3 f have c3: "handlePlayerJoin (Some ''0xC3'') True (Some ''room'') roomTwo
       = \<lparr> joinState = roomTwo, joinOutcome = RoomFull, joinError = Some ''Room is full'',
           joinRedirect = True \<rparr>" by blast
  from j4 r have c4: "handlePlayerJoin (Some ''0xa1'') True (Some ''room'') roomTwo
       = \<lparr> joinState = roomTwo, joinOutcome = AlreadyInGame, joinError = None,
           joinRedirect = False \<rparr>" by blast
  from j5 e have c5: "joinOutcome (handlePlayerJoinAt (Some ''0xB2'') True (Some ''room'') roomEmpty roomOne)
       = JoinedAs ''player1''" by blast
  from j3 f have c6: "handlePlayerJoinAt (Some ''0xC3'') True (Some ''room'') roomTwo roomOne
       = \<lparr> joinState = roomOne, joinOutcome = RoomFull, joinError = Some ''Room is full'',
           joinRedirect = True \<rparr>" by blast
  from e c1 o c2 c3 c4 c5 c6 show ?thesis by blast
qed

section \<open>Properties of the renderer\<close>

text \<open>One second of a scene whose only live timer event is the one its field refers to.\<close>

lemma timerSecond_counting:
  "timerEvent sc \<Longrightarrow> orphanTimers sc = 0 \<Longrightarrow> 1 < gameTimeRemaining sc \<Longrightarrow>
   timerSecond sc = (sc\<lparr> gameTimeRemaining := gameTimeRemaining sc - 1 \<rparr>, [])"
  by (simp add: timerSecond_def updateTimer_def updatesOf_def Let_def)

lemma timerSecond_expiry:
  "timerEvent sc \<Longrightarrow> orphanTimers sc = 0 \<Longrightarrow> gameTimeRemaining sc \<le> 1 \<Longrightarrow>
   timerSecond sc =
     (fst (handleTimeUp (sc\<lparr> gameTimeRemaining := gameTimeRemaining sc - 1 \<rparr>)),
      updatesOf (snd (handleTimeUp (sc\<lparr> gameTimeRemaining := gameTimeRemaining sc - 1 \<rparr>))))"
  by (simp add: timerSecond_def updateTimer_def Let_def split: prod.splits)

text \<open>A state change during play moves the rope sprite and emits nothing.\<close>

lemma updateGameState_duringPlay:
  assumes "sceneState sc = Some g0" and "isStarted g0" and "isStarted g"
      and "\<not> truthyStr (winner g)" and "ropeX sc = Some x"
  shows "updateGameState g sc =
           (sc\<lparr> sceneState := Some g, currentPlayer1Pulling := player1Pulling g,
                 currentPlayer2Pulling := player2Pulling g,
                 ropeX := Some (clampRopePosition sc (ropePosition g)) \<rparr>, None)"
  using assms by (simp add: updateGameState_def Let_def clampRopePosition_def)

text \<open>The state change that starts the game starts the timer, in a scene that has none.\<close>

lemma updateGameState_start:
  assumes "case sceneState sc of None \<Rightarrow> True | Some g0 \<Rightarrow> \<not> isStarted g0" and "isStarted g"
      and "\<not> truthyStr (winner g)" and "ropeX sc = Some x"
  shows "updateGameState g sc =
           (sc\<lparr> sceneState := Some g, gameTimeRemaining := GAME_DURATION,
                 orphanTimers := orphanTimers sc + (if timerEvent sc then 1 else 0),
                 timerEvent := True,
                 currentPlayer1Pulling := player1Pulling g,
                 currentPlayer2Pulling := player2Pulling g,
                 ropeX := Some (clampRopePosition sc (ropePosition g)) \<rparr>, None)"
  using assms
  by (simp add: updateGameState_def startGameTimer_def Let_def clampRopePosition_def
      split: option.splits)

text \<open>
  While the timer has more seconds left than go by, state changes during play and seconds
  emit nothing; the timer counts the seconds and the sprite follows the last state change.
\<close>

lemma runScene_duringPlay:
  assumes "list_all duringPlay evs" and "int (seconds evs) < gameTimeRemaining sc"
      and "timerEvent sc" and "orphanTimers sc = 0"
      and "\<exists>g0. sceneState sc = Some g0 \<and> isStarted g0"
      and "ropeX sc = Some (clampRopePosition sc p)"
  shows "\<exists>sc'. runScene evs sc = (sc', [])
           \<and> timerEvent sc' \<and> orphanTimers sc' = 0
           \<and> gameTimeRemaining sc' = gameTimeRemaining sc - int (seconds evs)
           \<and> (\<exists>g0. sceneState sc' = Some g0 \<and> isStarted g0)
           \<and> ropeX sc' = Some (clampRopePosition sc (lastRope p evs))
           \<and> cameraCenterX sc' = cameraCenterX sc
           \<and> hasUpdateCallback sc' = hasUpdateCallback sc"
  using assms
proof (induction evs arbitrary: sc p)
  case Nil
  then show ?case by simp
next
  case (Cons e evs)
  show ?case
  proof (cases e)
    case (StateChange g)
    from Cons.prems(5) obtain g0 where g0: "sceneState sc = Some g0" "isStarted g0" by blast
    let ?sc1 = "sc\<lparr> sceneState := Some g, currentPlayer1Pulling := player1Pulling g,
                 currentPlayer2Pulling := player2Pulling g,
                 ropeX := Some (clampRopePosition sc (ropePosition g)) \<rparr>"
    from Cons.prems(1) StateChange have g: "isStarted g" "\<not> truthyStr (winner g)" by simp_all
    have u: "updateGameState g sc = (?sc1, None)"
      using g0 g Cons.prems(6) by (rule updateGameState_duringPlay)
    have c: "clampRopePosition ?sc1 = clampRopePosition sc"
      by (simp add: clampRopePosition_def fun_eq_iff)
    have "\<exists>sc'. runScene evs ?sc1 = (sc', [])
           \<and> timerEvent sc' \<and> orphanTimers sc' = 0
           \<and> gameTimeRemaining sc' = gameTimeRemaining ?sc1 - int (seconds evs)
           \<and> (\<exists>g0. sceneState sc' = Some g0 \<and> isStarted g0)
           \<and> ropeX sc' = Some (clampRopePosition ?sc1 (lastRope (ropePosition g) evs))
           \<and> cameraCenterX sc' = cameraCenterX ?sc1
           \<and> hasUpdateCallback sc' = hasUpdateCallback ?sc1"
      using Cons.prems StateChange g by (intro Cons.IH) (simp_all add: c)
    then show ?thesis
      using StateChange u by (simp add: c updatesOf_def)
  next
    case Second
    let ?sc1 = "sc\<lparr> gameTimeRemaining := gameTimeRemaining sc - 1 \<rparr>"
    from Cons.prems(2) Second have r: "1 < gameTimeRemaining sc" by simp
    have u: "timerSecond sc = (?sc1, [])"
      using Cons.prems(3,4) r by (rule timerSecond_counting)
    have c: "clampRopePosition ?sc1 = clampRopePosition sc"
      by (simp add: clampRopePosition_def fun_eq_iff)
    have "\<exists>sc'. runScene evs ?sc1 = (sc', [])
           \<and> timerEvent sc' \<and> orphanTimers sc' = 0
           \<and> gameTimeRemaining sc' = gameTimeRemaining ?sc1 - int (seconds evs)
           \<and> (\<exists>g0. sceneState sc' = Some g0 \<and> isStarted g0)
           \<and> ropeX sc' = Some (clampRopePosition ?sc1 (lastRope p evs))
           \<and> cameraCenterX sc' = cameraCenterX ?sc1
           \<and> hasUpdateCallback sc' = hasUpdateCallback ?sc1"
      using Cons.prems Second by (intro Cons.IH) (simp_all add: c)
    then show ?thesis
      using Second u by (auto simp: c)
  qed
qed

lemma runScene_append:
  "runScene (xs @ ys) sc =
     (let (sc1, us1) = runScene xs sc;
          (sc2, us2) = runScene ys sc1
      in (sc2, us1 @ us2))"
  by (induction xs arbitrary: sc) (simp_all add: Let_def split: prod.splits)

text \<open>Clamping the rope sprite to the drawn range keeps it on its side of the centre.\<close>

lemma clampRopePosition_side:
  "(clampRopePosition sc p - cameraCenterX sc \<le> 0) = (p - cameraCenterX sc \<le> 0)"
  by (auto simp: clampRopePosition_def ROPE_BOUNDS_MARGIN_def max_def min_def)

text \<open>What the firing that brings the remaining time to 0 emits.\<close>

lemma updateTimer_expiry:
  assumes "hasUpdateCallback sc" and "gameTimeRemaining sc \<le> 1"
  shows "snd (updateTimer sc) =
           Some (emptyUpdate\<lparr> updWinner := Some (timeUpWinner sc), updIsStarted := Some False,
                               updPlayer1Pulling := Some False, updPlayer2Pulling := Some False,
                               updCountdown := Some None, updIsCountingDown := Some False \<rparr>)"
  using assms
  by (simp add: updateTimer_def handleTimeUp_def timeUpWinner_def Let_def split: option.splits)

text \<open>
  A scene that starts its timer while an earlier timer event is alive has two events
  counting the same seconds down, and the time is up after 30 seconds: here the scene is
  passed a state that is not started, and has no winner, between two started ones. The
  event that \<open>handleTimeUp\<close> does not destroy then emits an update every second.
\<close>

lemma second_timer_halves_duration:
  "orphanTimers (fst (runScene [StateChange scenarioStart, StateChange scenarioCounting,
                                 StateChange scenarioStart] lobbyScene)) = 1
   \<and> snd (runScene ([StateChange scenarioStart, StateChange scenarioCounting,
                      StateChange scenarioStart] @ replicate 29 Second) lobbyScene) = []
   \<and> map updWinner (snd (runScene ([StateChange scenarioStart, StateChange scenarioCounting,
                                     StateChange scenarioStart] @ replicate 30 Second) lobbyScene))
       = [Some ''player1'']
   \<and> length (snd (runScene ([StateChange scenarioStart, StateChange scenarioCounting,
                              StateChange scenarioStart] @ replicate 32 Second) lobbyScene)) = 3"
  by code_simp

text \<open>
  C5. A scene with no live timer event, its rope sprite and its \<open>updateCallback\<close> is passed
  the state \<open>gs\<close> that starts the game: the timer starts at 60 seconds. State changes during
  play and 59 seconds of the clock follow, in any order: nothing is emitted and one second
  remains. The next second brings the remaining time to 0, stops the timer and emits one
  update, whose winner is decided by the distance from the centre of the rope position of
  the last state passed to the scene: \<open>player1\<close> when the distance is \<open>\<le> 0\<close>, \<open>player2\<close>
  otherwise; the update also sets \<open>isStarted\<close> to false. (The sprite is set to that
  position clamped to the drawn range, which keeps its side of the centre.) And whatever
  timer events are alive, \<open>handleTimeUp\<close>, and so every firing of \<open>updateTimer\<close> that
  brings the remaining time to 0 or below, emits the winner decided by the sprite's
  distance from the centre, which for a sprite exactly at the centre, or a scene without
  sprite, is \<open>player1\<close>.
\<close>

theorem timeout_winner_by_distance:
  assumes cb: "hasUpdateCallback sc"
      and idle: "\<not> timerEvent sc \<and> orphanTimers sc = 0"
      and before: "case sceneState sc of None \<Rightarrow> True | Some g0 \<Rightarrow> \<not> isStarted g0"
      and rope: "ropeX sc \<noteq> None"
      and start: "isStarted gs \<and> \<not> truthyStr (winner gs)"
      and play: "list_all duringPlay evs \<and> seconds evs = 59"
  shows "timerEvent (fst (updateGameState gs sc))
       \<and> orphanTimers (fst (updateGameState gs sc)) = 0
       \<and> gameTimeRemaining (fst (updateGameState gs sc)) = 60
       \<and> snd (runScene (StateChange gs # evs) sc) = []
       \<and> gameTimeRemaining (fst (runScene (StateChange gs # evs) sc)) = 1
       \<and> map updWinner (snd (runScene (StateChange gs # evs @ [Second]) sc)) =
           [Some (if lastRope (ropePosition gs) evs - cameraCenterX sc \<le> 0
                  then ''player1'' else ''player2'')]
       \<and> map updIsStarted (snd (runScene (StateChange gs # evs @ [Second]) sc)) = [Some False]
       \<and> \<not> timerEvent (fst (runScene (StateChange gs # evs @ [Second]) sc))
       \<and> (hasUpdateCallback sc' \<longrightarrow>
            map_option updWinner (snd (handleTimeUp sc')) =
              Some (Some (if (case ropeX sc' of Some x \<Rightarrow> x | None \<Rightarrow> cameraCenterX sc')
                              - cameraCenterX sc' \<le> 0
                          then ''player1'' else ''player2'')))
       \<and> (hasUpdateCallback sc' \<and> gameTimeRemaining sc' \<le> 1 \<longrightarrow>
            map_option updWinner (snd (updateTimer sc')) =
              Some (Some (if (case ropeX sc' of Some x \<Rightarrow> x | None \<Rightarrow> cameraCenterX sc')
                              - cameraCenterX sc' \<le> 0
                          then ''player1'' else ''player2'')))
       \<and> (hasUpdateCallback sc' \<and> gameTimeRemaining sc' \<le> 1
            \<and> (ropeX sc' = Some (cameraCenterX sc') \<or> ropeX sc' = None) \<longrightarrow>
            map_option updWinner (snd (updateTimer sc')) = Some (Some ''player1''))"
proof -
  from rope obtain x where x: "ropeX sc = Some x" by blast
  let ?sc0 = "sc\<lparr> sceneState := Some gs, gameTimeRemaining := GAME_DURATION,
                 orphanTimers := orphanTimers sc + (if timerEvent sc then 1 else 0),
                 timerEvent := True,
                 currentPlayer1Pulling := player1Pulling gs,
                 currentPlayer2Pulling := player2Pulling gs,
                 ropeX := Some (clampRopePosition sc (ropePosition gs)) \<rparr>"
  have u: "updateGameState gs sc = (?sc0, None)"
    using before start x by (intro updateGameState_start) simp_all
  have first: "timerEvent (fst (updateGameState gs sc))
       \<and> orphanTimers (fst (updateGameState gs sc)) = 0
       \<and> gameTimeRemaining (fst (updateGameState gs sc)) = 60"
    using idle by (simp add: u GAME_DURATION_def)
  have "\<exists>sc1. runScene evs ?sc0 = (sc1, [])
           \<and> timerEvent sc1 \<and> orphanTimers sc1 = 0
           \<and> gameTimeRemaining sc1 = gameTimeRemaining ?sc0 - int (seconds evs)
           \<and> (\<exists>g0. sceneState sc1 = Some g0 \<and> isStarted g0)
           \<and> ropeX sc1 = Some (clampRopePosition ?sc0 (lastRope (ropePosition gs) evs))
           \<and> cameraCenterX sc1 = cameraCenterX ?sc0
           \<and> hasUpdateCallback sc1 = hasUpdateCallback ?sc0"
    using play start idle
    by (intro runScene_duringPlay) (simp_all add: clampRopePosition_def GAME_DURATION_def)
  then obtain sc1 where r: "runScene evs ?sc0 = (sc1, [])"
      and t: "timerEvent sc1" and o: "orphanTimers sc1 = 0"
      and g0: "gameTimeRemaining sc1 = gameTimeRemaining ?sc0 - int (seconds evs)"
      and px0: "ropeX sc1 = Some (clampRopePosition ?sc0 (lastRope (ropePosition gs) evs))"
      and cx0: "cameraCenterX sc1 = cameraCenterX ?sc0"
      and cb0: "hasUpdateCallback sc1 = hasUpdateCallback ?sc0"
    by blast
  from g0 play have g: "gameTimeRemaining sc1 = 1" by (simp add: GAME_DURATION_def)
  from px0 have px: "ropeX sc1 = Some (clampRopePosition sc (lastRope (ropePosition gs) evs))"
    by (simp add: clampRopePosition_def)
  from cx0 have cx: "cameraCenterX sc1 = cameraCenterX sc" by simp
  from cb0 cb have cb1: "hasUpdateCallback sc1" by simp
  have quiet: "snd (runScene (StateChange gs # evs) sc) = []
       \<and> gameTimeRemaining (fst (runScene (StateChange gs # evs) sc)) = 1"
    by (simp add: u r g updatesOf_def)
  let ?w = "if lastRope (ropePosition gs) evs - cameraCenterX sc \<le> 0 then ''player1'' else ''player2''"
  have w: "timeUpWinner (sc1\<lparr> gameTimeRemaining := 0, timerEvent := False \<rparr>) = ?w"
    using clampRopePosition_side[of sc "lastRope (ropePosition gs) evs"]
    by (simp add: timeUpWinner_def px cx Let_def)
  have s: "timerSecond sc1 =
     (fst (handleTimeUp (sc1\<lparr> gameTimeRemaining := gameTimeRemaining sc1 - 1 \<rparr>)),
      updatesOf (snd (handleTimeUp (sc1\<lparr> gameTimeRemaining := gameTimeRemaining sc1 - 1 \<rparr>))))"
    using t o g by (intro timerSecond_expiry) simp_all
  have last: "runScene (StateChange gs # evs @ [Second]) sc =
     (fst (handleTimeUp (sc1\<lparr> gameTimeRemaining := 0 \<rparr>)),
      updatesOf (snd (handleTimeUp (sc1\<lparr> gameTimeRemaining := 0 \<rparr>))))"
    using s by (simp add: u r g runScene_append updatesOf_def)
  have expired: "map updWinner (snd (runScene (StateChange gs # evs @ [Second]) sc)) = [Some ?w]
       \<and> map updIsStarted (snd (runScene (StateChange gs # evs @ [Second]) sc)) = [Some False]
       \<and> \<not> timerEvent (fst (runScene (StateChange gs # evs @ [Second]) sc))"
    unfolding last using cb1 w
    by (simp add: handleTimeUp_def Let_def updatesOf_def emptyUpdate_def)
  have timeUp: "hasUpdateCallback sc' \<longrightarrow>
            map_option updWinner (snd (handleTimeUp sc')) =
              Some (Some (if (case ropeX sc' of Some x \<Rightarrow> x | None \<Rightarrow> cameraCenterX sc')
                              - cameraCenterX sc' \<le> 0
                          then ''player1'' else ''player2''))"
    by (simp add: handleTimeUp_def timeUpWinner_def Let_def emptyUpdate_def split: option.splits)
  have rule: "hasUpdateCallback sc' \<and> gameTimeRemaining sc' \<le> 1 \<longrightarrow>
            map_option updWinner (snd (updateTimer sc')) =
              Some (Some (if (case ropeX sc' of Some x \<Rightarrow> x | None \<Rightarrow> cameraCenterX sc')
                              - cameraCenterX sc' \<le> 0
                          then ''player1'' else ''player2''))"
    by (simp add: updateTimer_expiry timeUpWinner_def Let_def emptyUpdate_def)
  have centre: "hasUpdateCallback sc' \<and> gameTimeRemaining sc' \<le> 1
            \<and> (ropeX sc' = Some (cameraCenterX sc') \<or> ropeX sc' = None) \<longrightarrow>
            map_option updWinner (snd (updateTimer sc')) = Some (Some ''player1'')"
    using rule by auto
  from first quiet expired timeUp rule centre show ?thesis by blast
qed

theorem timeout_winner_by_distance_witness:
  "hasUpdateCallback lobbyScene \<and> \<not> timerEvent lobbyScene \<and> orphanTimers lobbyScene = 0
   \<and> isStarted scenarioStart
   \<and> seconds (replicate 59 Second) = 59
   \<and> map updWinner (snd (runScene (StateChange scenarioStart # replicate 59 Second @ [Second])
                            lobbyScene)) = [Some ''player1'']
   \<and> seconds playWithPull = 59
   \<and> map updWinner (snd (runScene (StateChange scenarioStart # playWithPull @ [Second])
                            lobbyScene)) = [Some ''player2'']
   \<and> gameTimeRemaining (fst (runScene (StateChange scenarioStart # playWithPull) lobbyScene)) = 1
   \<and> ropeX centredScene = Some (cameraCenterX centredScene)
   \<and> map_option updWinner (snd (handleTimeUp centredScene)) = Some (Some ''player1'')"
proof -
  have cb: "hasUpdateCallback lobbyScene" by code_simp
  have cb': "hasUpdateCallback centredScene" by code_simp
  have r': "ropeX centredScene = Some (cameraCenterX centredScene)" by code_simp
  have idle: "\<not> timerEvent lobbyScene \<and> orphanTimers lobbyScene = 0" by code_simp
  have before: "case sceneState lobbyScene of None \<Rightarrow> True | Some g0 \<Rightarrow> \<not> isStarted g0"
    by code_simp
  have rope: "ropeX lobbyScene \<noteq> None" by code_simp
  have start: "isStarted scenarioStart \<and> \<not> truthyStr (winner scenarioStart)" by code_simp
  have p1: "list_all duringPlay (replicate 59 Second) \<and> seconds (replicate 59 Second) = 59"
    by code_simp
  have p2: "list_all duringPlay playWithPull \<and> seconds playWithPull = 59" by code_simp
  have l1: "lastRope (ropePosition scenarioStart) (replicate 59 Second) - cameraCenterX lobbyScene = 0"
    by code_simp
  have l2: "lastRope (ropePosition scenarioStart) playWithPull - cameraCenterX lobbyScene = 10"
    by code_simp
  from timeout_winner_by_distance[OF cb idle before rope start p1] l1
  have w1: "map updWinner (snd (runScene (StateChange scenarioStart # replicate 59 Second @ [Second])
                            lobbyScene)) = [Some ''player1'']"
    by simp
  from timeout_winner_by_distance[OF cb idle before rope start p2] l2
  have w2: "map updWinner (snd (runScene (StateChange scenarioStart # playWithPull @ [Second])
                            lobbyScene)) = [Some ''player2'']
            \<and> gameTimeRemaining (fst (runScene (StateChange scenarioStart # playWithPull) lobbyScene)) = 1"
    by simp
  from timeout_winner_by_distance[OF cb idle before rope start p1, of centredScene] cb' r'
  have w3: "map_option updWinner (snd (handleTimeUp centredScene)) = Some (Some ''player1'')"
    by simp
  from cb idle start p1 p2 w1 w2 r' w3 show ?thesis by blast
qed

text \<open>What a key press emits.\<close>

lemma handlePull_emits:
  assumes "handlePull now sc = (sc', Some u)"
  shows "u = emptyUpdate\<lparr>
           updPlayer1Pulling := Some (playerRole sc = Some ''player1'' \<or> currentPlayer1Pulling sc),
           updPlayer2Pulling := Some (playerRole sc = Some ''player2'' \<or> currentPlayer2Pulling sc) \<rparr>"
  using assms
  by (auto simp: handlePull_def Let_def split: if_splits)

lemma onSpaceDown_emits:
  assumes "onSpaceDown now sc = (sc', Some u)"
  shows "u = emptyUpdate\<lparr>
           updPlayer1Pulling := Some (playerRole sc = Some ''player1'' \<or> currentPlayer1Pulling sc),
           updPlayer2Pulling := Some (playerRole sc = Some ''player2'' \<or> currentPlayer2Pulling sc) \<rparr>"
  using assms
  by (auto simp: onSpaceDown_def split: if_splits option.splits prod.splits dest!: handlePull_emits)

text \<open>
  C8, as stated, fails. Player A's key press, in a scene that has not yet seen player B's
  flag, emits \<open>player2Pulling: false\<close>, and the update clears the flag that B has set. The
  renderer also writes the winner and clears both flags when the timer expires
  (\<open>handleTimeUp\<close>), and writes the winner and the rope position from \<open>handleWin\<close>.
\<close>

theorem renderer_writes_counterexample:
  "snd stalePress = Some pullUpdate
   \<and> updPlayer2Pulling pullUpdate = Some False
   \<and> player2Pulling playerBPressed
   \<and> \<not> player2Pulling (applyUpdate pullUpdate playerBPressed)
   \<and> map_option updWinner (snd (handleTimeUp centredScene)) = Some (Some ''player1'')
   \<and> map_option updPlayer1Pulling (snd (handleTimeUp centredScene)) = Some (Some False)
   \<and> map_option updRopePosition (snd (handleWin ''player1'' centredScene)) = Some (Some 300)
   \<and> map_option updWinner (snd (handleWin ''player1'' centredScene)) = Some (Some ''player1'')"
  by code_simp

text \<open>
  C8 (amended). An update that the input handler emits on a key press contains the two
  pulling flags and nothing else: it never writes \<open>ropePosition\<close>, \<open>winner\<close> or another
  field; the presser's own flag is written as true and the other player's flag is written
  with the scene's local copy of it, which may be false. The renderer's other updates do
  write the fields that the resolution loop writes: on expiry of the timer \<open>handleTimeUp\<close>
  writes the winner, \<open>isStarted = false\<close> and both flags false, and \<open>handleWin\<close> writes the
  winner, \<open>ropePosition\<close> 300 or 900, \<open>isStarted = false\<close> and both flags false.
\<close>

theorem key_press_update:
  assumes "onSpaceDown now sc = (sc', Some u)"
  shows "updRopePosition u = None \<and> updWinner u = None \<and> updIsStarted u = None
       \<and> updCountdown u = None \<and> updIsCountingDown u = None
       \<and> (playerRole sc = Some ''player1'' \<longrightarrow>
            updPlayer1Pulling u = Some True \<and> updPlayer2Pulling u = Some (currentPlayer2Pulling sc))
       \<and> (playerRole sc = Some ''player2'' \<longrightarrow>
            updPlayer2Pulling u = Some True \<and> updPlayer1Pulling u = Some (currentPlayer1Pulling sc))
       \<and> (hasUpdateCallback sc2 \<longrightarrow>
            snd (handleTimeUp sc2) =
              Some (emptyUpdate\<lparr> updWinner := Some (timeUpWinner sc2), updIsStarted := Some False,
                     updPlayer1Pulling := Some False, updPlayer2Pulling := Some False,
                     updCountdown := Some None, updIsCountingDown := Some False \<rparr>))
       \<and> (hasUpdateCallback sc2 \<and> ropeX sc2 \<noteq> None \<longrightarrow>
            snd (handleWin w sc2) =
              Some (emptyUpdate\<lparr> updIsStarted := Some False, updWinner := Some w,
                     updPlayer1Pulling := Some False, updPlayer2Pulling := Some False,
                     updRopePosition := Some (if w = ''player1'' then 300 else 900),
                     updCountdown := Some None, updIsCountingDown := Some False \<rparr>))"
proof -
  note u = onSpaceDown_emits[OF assms]
  have own: "playerRole sc = Some ''player1'' \<longrightarrow> \<not> (playerRole sc = Some ''player2'')" by auto
  show ?thesis
    unfolding u
    by (auto simp: emptyUpdate_def handleTimeUp_def timeUpWinner_def handleWin_def Let_def
        stopGameTimer_def)
qed

theorem key_press_update_witness:
  "onSpaceDown 1030 (sceneFor ''player1'' scenarioStart) = (fst stalePress, Some pullUpdate)
   \<and> playerRole (sceneFor ''player1'' scenarioStart) = Some ''player1''
   \<and> updPlayer1Pulling pullUpdate = Some True
   \<and> updPlayer2Pulling pullUpdate = Some False
   \<and> updRopePosition pullUpdate = None \<and> updWinner pullUpdate = None
   \<and> hasUpdateCallback centredScene \<and> ropeX centredScene \<noteq> None
   \<and> map_option updRopePosition (snd (handleWin ''player2'' centredScene)) = Some (Some 900)"
proof -
  have s: "snd stalePress = Some pullUpdate" by code_simp
  then have e: "onSpaceDown 1030 (sceneFor ''player1'' scenarioStart) = (fst stalePress, Some pullUpdate)"
    by (simp add: stalePress_def prod_eq_iff)
  have r: "playerRole (sceneFor ''player1'' scenarioStart) = Some ''player1''"
    by (simp add: sceneFor_def Let_def)
  have m: "currentPlayer2Pulling (sceneFor ''player1'' scenarioStart) = False" by code_simp
  have h: "hasUpdateCallback centredScene \<and> ropeX centredScene \<noteq> None" by code_simp
  from key_press_update[OF e, of centredScene "''player2''"] r m h e
  show ?thesis by (simp add: emptyUpdate_def)
qed

section \<open>Properties of the settlement client\<close>

lemma serviceReachable_finished:
  "serviceReachable svc \<Longrightarrow> finishedGames svc \<noteq> {} \<Longrightarrow>
   isInitialized svc \<and> tugOfWarContract svc"
proof (induction rule: serviceReachable.induct)
  case sr_initial
  then show ?case by (simp add: initialService_def)
next
  case (sr_initialize svc out)
  then show ?case by (cases out) (auto simp: initialize_def)
next
  case (sr_stake svc rid hasStaked out)
  then show ?case by (auto simp: stake_def Let_def split: if_splits TxOutcome.splits)
next
  case (sr_finishGame svc rid winner' out)
  then show ?case
    by (auto simp: finishGame_def finishGameCall_def finishGameSettle_def
        split: if_splits TxOutcome.splits)
qed

text \<open>
  C10. In every state that the service can reach: \<open>finishGame\<close> returns successfully,
  without invoking the contract and without changing the service, when the room is
  already in \<open>finishedGames\<close>; if the call throws, \<open>finishedGames\<close> is unchanged; the room
  enters \<open>finishedGames\<close> only through a call whose transaction is confirmed; and after a
  call that failed for a room not yet finished, a later call invokes the contract again.
\<close>

theorem finishGame_skips_and_is_atomic:
  assumes "serviceReachable svc"
  shows "(rid \<in> finishedGames svc \<longrightarrow> finishGame rid w out svc = (Inr (), svc))
       \<and> (\<forall>e. fst (finishGame rid w out svc) = Inl e \<longrightarrow>
              finishedGames (snd (finishGame rid w out svc)) = finishedGames svc)
       \<and> (rid \<in> finishedGames (snd (finishGame rid w out svc)) \<and> rid \<notin> finishedGames svc \<longrightarrow>
              out = Confirmed \<and> fst (finishGame rid w out svc) = Inr ())
       \<and> (isInitialized svc \<and> tugOfWarContract svc \<and> rid \<notin> finishedGames svc \<longrightarrow>
              contractCalls (snd (finishGame rid w' out' (snd (finishGame rid w Rejected svc))))
                = contractCalls svc @ [(rid, w), (rid, w')])"
proof (intro conjI impI allI)
  assume "rid \<in> finishedGames svc"
  then have "finishedGames svc \<noteq> {}" by auto
  with assms have "isInitialized svc \<and> tugOfWarContract svc" by (rule serviceReachable_finished)
  with \<open>rid \<in> finishedGames svc\<close> show "finishGame rid w out svc = (Inr (), svc)"
    by (simp add: finishGame_def finishGameCall_def)
next
  fix e assume "fst (finishGame rid w out svc) = Inl e"
  then show "finishedGames (snd (finishGame rid w out svc)) = finishedGames svc"
    by (auto simp: finishGame_def finishGameCall_def finishGameSettle_def
        split: if_splits TxOutcome.splits)
next
  assume "rid \<in> finishedGames (snd (finishGame rid w out svc)) \<and> rid \<notin> finishedGames svc"
  then show "out = Confirmed"
    by (auto simp: finishGame_def finishGameCall_def finishGameSettle_def
        split: if_splits TxOutcome.splits)
next
  assume "rid \<in> finishedGames (snd (finishGame rid w out svc)) \<and> rid \<notin> finishedGames svc"
  then show "fst (finishGame rid w out svc) = Inr ()"
    by (auto simp: finishGame_def finishGameCall_def finishGameSettle_def
        split: if_splits TxOutcome.splits)
next
  assume "isInitialized svc \<and> tugOfWarContract svc \<and> rid \<notin> finishedGames svc"
  then show "contractCalls (snd (finishGame rid w' out' (snd (finishGame rid w Rejected svc))))
                = contractCalls svc @ [(rid, w), (rid, w')]"
    by (cases out') (simp_all add: finishGame_def finishGameCall_def finishGameSettle_def)
qed

theorem finishGame_skips_and_is_atomic_witness:
  "serviceReachable finishedService \<and> ''room'' \<in> finishedGames finishedService
   \<and> finishGame ''room'' ''0xB2'' Confirmed finishedService = (Inr (), finishedService)
   \<and> contractCalls finishedService = [(''room'', ''0xA1'')]
   \<and> serviceReachable readyService
   \<and> fst (finishGame ''room'' ''0xA1'' Rejected readyService) = Inl TransactionFailed
   \<and> finishedGames (snd (finishGame ''room'' ''0xA1'' Rejected readyService))
       = finishedGames readyService
   \<and> contractCalls
        (snd (finishGame ''room'' ''0xA1'' Confirmed
               (snd (finishGame ''room'' ''0xA1'' Rejected readyService))))
       = [(''room'', ''0xA1''), (''room'', ''0xA1'')]"
proof -
  have r: "serviceReachable readyService"
    unfolding readyService_def by (intro sr_initialize sr_initial)
  then have f: "serviceReachable finishedService"
    unfolding finishedService_def by (rule sr_finishGame)
  have m: "''room'' \<in> finishedGames finishedService"
    by (simp add: finishedService_def readyService_def finishGame_def finishGameCall_def
        finishGameSettle_def initialize_def initialService_def)
  have c: "contractCalls finishedService = [(''room'', ''0xA1'')]"
    by (simp add: finishedService_def readyService_def finishGame_def finishGameCall_def
        finishGameSettle_def initialize_def initialService_def)
  have t: "fst (finishGame ''room'' ''0xA1'' Rejected readyService) = Inl TransactionFailed"
    by (simp add: readyService_def finishGame_def finishGameCall_def
        finishGameSettle_def initialize_def initialService_def)
  have i: "isInitialized readyService \<and> tugOfWarContract readyService
           \<and> ''room'' \<notin> finishedGames readyService \<and> contractCalls readyService = []"
    by (simp add: readyService_def initialize_def initialService_def)
  note a = finishGame_skips_and_is_atomic[OF f, where rid = "''room''" and w = "''0xB2''"
      and out = Confirmed]
  note b = finishGame_skips_and_is_atomic[OF r, where rid = "''room''" and w = "''0xA1''"
      and out = Rejected and w' = "''0xA1''" and out' = Confirmed]
  from a m have 1: "finishGame ''room'' ''0xB2'' Confirmed finishedService = (Inr (), finishedService)"
    by blast
  from b t have 2: "finishedGames (snd (finishGame ''room'' ''0xA1'' Rejected readyService))
       = finishedGames readyService" by blast
  from b i have 3: "contractCalls
        (snd (finishGame ''room'' ''0xA1'' Confirmed
               (snd (finishGame ''room'' ''0xA1'' Rejected readyService))))
       = [(''room'', ''0xA1''), (''room'', ''0xA1'')]" by simp
  from f m 1 c r t 2 3 show ?thesis by blast
qed

section \<open>Properties of the settlement trigger\<close>

text \<open>The interval callback reads the latch and never writes it; it starts at most one
  task, and only while the latch is unset.\<close>

lemma gameLoop_latch: "finishGameCalledRef (gameLoop now cur c) = finishGameCalledRef c"
  by (simp add: gameLoop_def Let_def split: prod.splits)

lemma gameLoop_serviceCalls: "serviceCalls (gameLoop now cur c) = serviceCalls c"
  by (simp add: gameLoop_def Let_def split: prod.splits)

lemma gameLoop_service: "service (gameLoop now cur c) = service c"
  by (simp add: gameLoop_def Let_def split: prod.splits)

lemma settleGuard_cases:
  "settleGuard w cur prev latch = [] \<or> (\<not> latch \<and> (\<exists>t. settleGuard w cur prev latch = [t]))"
  by (auto simp: settleGuard_def split: option.splits)

lemma gameLoop_pending:
  "pendingTasks (gameLoop now cur c) = pendingTasks c
   \<or> (\<not> finishGameCalledRef c \<and> (\<exists>t. pendingTasks (gameLoop now cur c) = pendingTasks c @ [t]))"
proof -
  obtain p su where ps: "pullStep cur = (p, su)" by (cases "pullStep cur")
  from settleGuard_cases[of "winCheck p" cur "gameState c" "finishGameCalledRef c"]
  show ?thesis
    by (auto simp: gameLoop_def Let_def ps)
qed

text \<open>The latch is never reset by the interval, by a task or by a transaction that
  settles, whether it is confirmed or fails.\<close>

lemma settleBody_latch: "finishGameCalledRef c \<Longrightarrow> finishGameCalledRef (settleBody t c)"
  by (auto simp: settleBody_def Let_def split: sum.splits option.splits prod.splits CallStatus.splits)

lemma settleTx_latch: "finishGameCalledRef (settleTx rid out c) = finishGameCalledRef c"
  by (auto simp: settleTx_def split: prod.splits sum.splits)

lemma latch_never_reset: "finishGameCalledRef c \<Longrightarrow> finishGameCalledRef (step e c)"
  by (cases e) (auto simp: gameLoop_latch settleBody_latch settleTx_latch split: list.splits)

lemma latch_never_reset_run: "finishGameCalledRef c \<Longrightarrow> finishGameCalledRef (run es c)"
  by (induction es arbitrary: c) (auto simp: latch_never_reset)

text \<open>
  A task calls the service only in the client whose address is, without regard to case,
  the address of the first player holding \<open>player1\<close>; and it has set the latch when it does.
\<close>

lemma settleBody_calls:
  "serviceCalls (settleBody t c) = serviceCalls c
   \<or> (finishGameCalledRef (settleBody t c)
       \<and> (\<exists>x. serviceCalls (settleBody t c) = serviceCalls c @ [x])
       \<and> (\<exists>a1 p a. findRole ''player1'' (taskPlayers t) = Some (a1, p)
             \<and> getCurrentAddress (service c) = Inr a \<and> toLowerCase a1 = toLowerCase a))"
  by (auto simp: settleBody_def Let_def split: sum.splits option.splits prod.splits CallStatus.splits)

lemma settleBody_pending: "pendingTasks (settleBody t c) = pendingTasks c"
  by (auto simp: settleBody_def Let_def split: sum.splits option.splits prod.splits CallStatus.splits)

lemma settleBody_contractCalls:
  "length (contractCalls (service (settleBody t c))) - length (contractCalls (service c))
   \<le> length (serviceCalls (settleBody t c)) - length (serviceCalls c)
   \<and> length (contractCalls (service c)) \<le> length (contractCalls (service (settleBody t c)))"
  by (auto simp: settleBody_def finishGameCall_def Let_def
      split: sum.splits option.splits prod.splits CallStatus.splits if_splits)

lemma settleTx_calls:
  "serviceCalls (settleTx rid out c) = serviceCalls c"
  "pendingTasks (settleTx rid out c) = pendingTasks c"
  "contractCalls (service (settleTx rid out c)) = contractCalls (service c)"
  by (auto simp: settleTx_def finishGameSettle_def split: prod.splits sum.splits TxOutcome.splits)

text \<open>
  On a sequential schedule, where the task that a firing starts resumes before the
  interval fires again, a client issues the settlement call at most once, whatever the
  transactions answer.
\<close>

lemma seqStep_inv: "seqInv c \<Longrightarrow> seqInv (seqStep e c)"
proof (cases e)
  case (TickThenResume now cur)
  assume inv: "seqInv c"
  let ?c1 = "gameLoop now cur c"
  from gameLoop_pending[of now cur c] inv
  consider (none) "pendingTasks ?c1 = []"
    | (one) t where "\<not> finishGameCalledRef c" "pendingTasks ?c1 = [t]"
    by (auto simp: seqInv_def)
  then show ?thesis
  proof cases
    case none
    then show ?thesis using inv TickThenResume
      by (simp add: seqInv_def gameLoop_latch gameLoop_serviceCalls gameLoop_service)
  next
    case one
    let ?c2 = "?c1\<lparr> pendingTasks := [] \<rparr>"
    from one inv have e: "serviceCalls ?c2 = []" "contractCalls (service ?c2) = []"
      by (auto simp: seqInv_def gameLoop_serviceCalls gameLoop_service)
    have s: "seqStep e c = settleBody t ?c2" using TickThenResume one by simp
    from settleBody_calls[of t ?c2] settleBody_contractCalls[of t ?c2] e
    show ?thesis unfolding s seqInv_def
      by (auto simp: settleBody_pending)
  qed
next
  case (SettleNow out)
  assume "seqInv c"
  then show ?thesis using SettleNow
    by (auto simp: seqInv_def settleTx_calls settleTx_latch split: list.splits)
qed

lemma seqRun_inv: "seqInv c \<Longrightarrow> seqInv (seqRun es c)"
  by (induction es arbitrary: c) (auto simp: seqStep_inv)

lemma sequential_at_most_once:
  assumes "pendingTasks c = []" and "serviceCalls c = []" and "contractCalls (service c) = []"
  shows "length (serviceCalls (seqRun es c)) \<le> 1
       \<and> length (contractCalls (service (seqRun es c))) \<le> 1"
proof -
  have "seqInv c" using assms by (simp add: seqInv_def)
  then have "seqInv (seqRun es c)" by (rule seqRun_inv)
  then show ?thesis by (auto simp: seqInv_def)
qed

text \<open>
  C1 requires that \<open>finishGame(room, winner)\<close> is invoked at most once per room. The code
  reads the latch in the updater and sets it only after the task's two \<open>await\<close>s, so the
  requirement fails on the schedule \<open>raceSchedule\<close> of player A's client: the interval
  fires at 4500, detects the winner and starts a task; it fires again at 4550, before that
  task has resumed and before the state has been rendered again; both tasks then run,
  and each calls \<open>blockchainService.finishGame\<close>, which invokes the contract each time,
  because the room enters \<open>finishedGames\<close> only when a transaction is confirmed.
\<close>

theorem settlement_issued_twice:
  "pendingTasks racingClient = [] \<and> serviceCalls racingClient = []
   \<and> \<not> finishGameCalledRef racingClient
   \<and> length (pendingTasks (run (take 2 raceSchedule) racingClient)) = 2
   \<and> serviceCalls (run raceSchedule racingClient) = [(''room'', ''0xA1''), (''room'', ''0xA1'')]
   \<and> contractCalls (service (run raceSchedule racingClient))
       = [(''room'', ''0xA1''), (''room'', ''0xA1'')]"
  by code_simp

end
